theory Spec2Isabelle
  imports Complex_Main
begin

section \<open>Python values, errors and dense arrays\<close>

text \<open>
  The numerical core works on numpy arrays and torch tensors of floating-point numbers.
  The specification describes every field as an array of real values, and the statements
  below are about that contract: array entries, spacings and times are of type \<open>real\<close>,
  so rounding is not part of the model.

  Exceptions are values: every function that can raise returns \<open>error + 'a\<close>, with
  \<open>Inl\<close> for the exception. The constructors are named after the Python exception
  classes; \<open>ValueError\<close>, \<open>NameError\<close> and \<open>AttributeError\<close> carry the message or the name.
\<close>

datatype error =
    ValueError string
  | IndexError
  | AssertionError
  | TypeError
  | NameError string
  | AttributeError string

definition bind_e :: "error + 'a \<Rightarrow> ('a \<Rightarrow> error + 'b) \<Rightarrow> error + 'b" where
  "bind_e m k = (case m of Inl e \<Rightarrow> Inl e | Inr x \<Rightarrow> k x)"

text \<open>Indexing a Python sequence or a one-dimensional array with a non-negative index.\<close>

definition getitem :: "'a list \<Rightarrow> nat \<Rightarrow> error + 'a" where
  "getitem xs i = (if i < length xs then Inr (xs ! i) else Inl IndexError)"

text \<open>
  A dense array is its shape together with its entries, read by multi-index. The entries
  at multi-indices outside the shape carry no meaning; every statement about an array
  reads it inside its shape or sums over its shape.
\<close>

record arr =
  shape :: "nat list"
  entry :: "nat list \<Rightarrow> real"

definition getdimension :: "arr \<Rightarrow> nat" where
  "getdimension I = length (shape I)"

text \<open>
  Elementwise arithmetic. The operands of every binary operation in the source have the
  same shape (one is computed from the other by a shape-preserving operation), so no
  broadcasting is modelled.
\<close>

definition arr_add :: "arr \<Rightarrow> arr \<Rightarrow> arr" where
  "arr_add A B = \<lparr>shape = shape A, entry = (\<lambda>idx. entry A idx + entry B idx)\<rparr>"

definition arr_sub :: "arr \<Rightarrow> arr \<Rightarrow> arr" where
  "arr_sub A B = \<lparr>shape = shape A, entry = (\<lambda>idx. entry A idx - entry B idx)\<rparr>"

definition arr_scale :: "real \<Rightarrow> arr \<Rightarrow> arr" where
  "arr_scale c A = \<lparr>shape = shape A, entry = (\<lambda>idx. c * entry A idx)\<rparr>"

definition arr_times :: "arr \<Rightarrow> real \<Rightarrow> arr" where
  "arr_times A c = \<lparr>shape = shape A, entry = (\<lambda>idx. entry A idx * c)\<rparr>"

definition arr_div :: "arr \<Rightarrow> real \<Rightarrow> arr" where
  "arr_div A c = \<lparr>shape = shape A, entry = (\<lambda>idx. entry A idx / c)\<rparr>"

definition arr_sq :: "arr \<Rightarrow> arr" where
  "arr_sq A = \<lparr>shape = shape A, entry = (\<lambda>idx. (entry A idx)\<^sup>2)\<rparr>"

text \<open>\<open>A.sum()\<close>: the sum of all entries, axis by axis.\<close>

fun asum :: "nat list \<Rightarrow> (nat list \<Rightarrow> real) \<Rightarrow> real" where
  "asum [] g = g []"
| "asum (n # ns) g = sum_list (map (\<lambda>i. asum ns (\<lambda>idx. g (i # idx))) [0..<n])"

definition arr_sum :: "arr \<Rightarrow> real" where
  "arr_sum A = asum (shape A) (entry A)"

text \<open>
  \<open>v[i, ...]\<close>, \<open>v[i,:]\<close>, \<open>v[i,:,:]\<close>, \<open>v[i,:,:,:]\<close>: the sub-array at position \<open>i\<close> of
  the leading axis. \<open>k\<close> is the number of colons written after the index (0 for the
  ellipsis form); more indices than axes, or \<open>i\<close> beyond the leading axis, raise
  IndexError.
\<close>

definition slice :: "arr \<Rightarrow> nat \<Rightarrow> arr" where
  "slice v i = \<lparr>shape = tl (shape v), entry = (\<lambda>idx. entry v (i # idx))\<rparr>"

definition subarr :: "arr \<Rightarrow> nat \<Rightarrow> nat \<Rightarrow> error + arr" where
  "subarr v i k =
     (if length (shape v) < k + 1 then Inl IndexError
      else if \<not> i < hd (shape v) then Inl IndexError
      else Inr (slice v i))"

section \<open>Finite differences (finite_differences.py)\<close>

record FD =
  dim :: nat
  spacing :: "real list"
  bcNeumannZero :: bool

definition dim_error :: error where
  "dim_error = ValueError ''Finite differences are only supported in dimensions 1 to 3''"

text \<open>
  \<open>FD.__init__\<close>: the spacing is copied entry by entry for one and two dimensions and
  taken as it is for three; any other length raises.
\<close>

definition FD_init :: "real list \<Rightarrow> bool \<Rightarrow> error + FD" where
  "FD_init sp bc =
     (if length sp = 1 then Inr \<lparr>dim = length sp, spacing = [sp ! 0], bcNeumannZero = bc\<rparr>
      else if length sp = 2 then Inr \<lparr>dim = length sp, spacing = [sp ! 0, sp ! 1], bcNeumannZero = bc\<rparr>
      else if length sp = 3 then Inr \<lparr>dim = length sp, spacing = sp, bcNeumannZero = bc\<rparr>
      else Inl dim_error)"

text \<open>\<open>FD_np.__init__\<close> and \<open>FD_torch.__init__\<close> call the base constructor with the default policy.\<close>

definition FD_torch :: "real list \<Rightarrow> error + FD" where
  "FD_torch sp = FD_init sp True"

text \<open>
  The slice assignments of \<open>xp\<close>, \<open>yp\<close>, \<open>zp\<close> along axis \<open>k\<close> of size \<open>n\<close>:
  \<open>r[.., 0:-1, ..] = I[.., 1:, ..]\<close>, then \<open>r[.., -1, ..] = I[.., -1, ..]\<close> under the
  zero-Neumann policy and \<open>2*I[.., -1, ..] - I[.., -2, ..]\<close> otherwise. Index \<open>-1\<close> is out
  of bounds on an axis of size 0, index \<open>-2\<close> on an axis of size below 2.
\<close>

definition shift_plus :: "bool \<Rightarrow> nat \<Rightarrow> arr \<Rightarrow> error + arr" where
  "shift_plus bc k I =
     (let n = shape I ! k in
      if n = 0 then Inl IndexError
      else if \<not> bc \<and> n < 2 then Inl IndexError
      else Inr \<lparr>shape = shape I,
                entry = (\<lambda>idx. if idx ! k + 1 < n then entry I (idx[k := idx ! k + 1])
                             else if bc then entry I (idx[k := n - 1])
                             else 2 * entry I (idx[k := n - 1]) - entry I (idx[k := n - 2]))\<rparr>)"

text \<open>
  The slice assignments of \<open>xm\<close>, \<open>ym\<close>, \<open>zm\<close>: \<open>r[.., 1:, ..] = I[.., 0:-1, ..]\<close>, then
  \<open>r[.., 0, ..] = I[.., 0, ..]\<close> or \<open>2*I[.., 0, ..] - I[.., 1, ..]\<close>.
\<close>

definition shift_minus :: "bool \<Rightarrow> nat \<Rightarrow> arr \<Rightarrow> error + arr" where
  "shift_minus bc k I =
     (let n = shape I ! k in
      if n = 0 then Inl IndexError
      else if \<not> bc \<and> n < 2 then Inl IndexError
      else Inr \<lparr>shape = shape I,
                entry = (\<lambda>idx. if 0 < idx ! k then entry I (idx[k := idx ! k - 1])
                             else if bc then entry I (idx[k := 0])
                             else 2 * entry I (idx[k := 0]) - entry I (idx[k := 1]))\<rparr>)"

definition xp :: "FD \<Rightarrow> arr \<Rightarrow> error + arr" where
  "xp self I =
     (let ndim = getdimension I in
      if ndim = 1 then shift_plus (bcNeumannZero self) 0 I
      else if ndim = 2 then shift_plus (bcNeumannZero self) 0 I
      else if ndim = 3 then shift_plus (bcNeumannZero self) 0 I
      else Inl dim_error)"

definition xm :: "FD \<Rightarrow> arr \<Rightarrow> error + arr" where
  "xm self I =
     (let ndim = getdimension I in
      if ndim = 1 then shift_minus (bcNeumannZero self) 0 I
      else if ndim = 2 then shift_minus (bcNeumannZero self) 0 I
      else if ndim = 3 then shift_minus (bcNeumannZero self) 0 I
      else Inl dim_error)"

definition yp :: "FD \<Rightarrow> arr \<Rightarrow> error + arr" where
  "yp self I =
     (let ndim = getdimension I in
      if ndim = 2 then shift_plus (bcNeumannZero self) 1 I
      else if ndim = 3 then shift_plus (bcNeumannZero self) 1 I
      else Inl dim_error)"

definition ym :: "FD \<Rightarrow> arr \<Rightarrow> error + arr" where
  "ym self I =
     (let ndim = getdimension I in
      if ndim = 2 then shift_minus (bcNeumannZero self) 1 I
      else if ndim = 3 then shift_minus (bcNeumannZero self) 1 I
      else Inl dim_error)"

definition zp :: "FD \<Rightarrow> arr \<Rightarrow> error + arr" where
  "zp self I =
     (let ndim = getdimension I in
      if ndim = 3 then shift_plus (bcNeumannZero self) 2 I
      else Inl dim_error)"

definition zm :: "FD \<Rightarrow> arr \<Rightarrow> error + arr" where
  "zm self I =
     (let ndim = getdimension I in
      if ndim = 3 then shift_minus (bcNeumannZero self) 2 I
      else Inl dim_error)"

text \<open>
  The difference quotients. Python evaluates the numerator first (the left shift before
  the right one), then reads the spacing.
\<close>

definition dXb :: "FD \<Rightarrow> arr \<Rightarrow> error + arr" where
  "dXb self I = bind_e (xm self I) (\<lambda>M. bind_e (getitem (spacing self) 0) (\<lambda>h.
     Inr (arr_div (arr_sub I M) h)))"

definition dXf :: "FD \<Rightarrow> arr \<Rightarrow> error + arr" where
  "dXf self I = bind_e (xp self I) (\<lambda>P. bind_e (getitem (spacing self) 0) (\<lambda>h.
     Inr (arr_div (arr_sub P I) h)))"

definition dXc :: "FD \<Rightarrow> arr \<Rightarrow> error + arr" where
  "dXc self I = bind_e (xp self I) (\<lambda>P. bind_e (xm self I) (\<lambda>M.
     bind_e (getitem (spacing self) 0) (\<lambda>h. Inr (arr_div (arr_sub P M) (2 * h)))))"

definition ddXc :: "FD \<Rightarrow> arr \<Rightarrow> error + arr" where
  "ddXc self I = bind_e (xp self I) (\<lambda>P. bind_e (xm self I) (\<lambda>M.
     bind_e (getitem (spacing self) 0) (\<lambda>h.
       Inr (arr_div (arr_add (arr_sub P (arr_scale 2 I)) M) (h\<^sup>2)))))"

definition dYb :: "FD \<Rightarrow> arr \<Rightarrow> error + arr" where
  "dYb self I = bind_e (ym self I) (\<lambda>M. bind_e (getitem (spacing self) 1) (\<lambda>h.
     Inr (arr_div (arr_sub I M) h)))"

definition dYf :: "FD \<Rightarrow> arr \<Rightarrow> error + arr" where
  "dYf self I = bind_e (yp self I) (\<lambda>P. bind_e (getitem (spacing self) 1) (\<lambda>h.
     Inr (arr_div (arr_sub P I) h)))"

definition dYc :: "FD \<Rightarrow> arr \<Rightarrow> error + arr" where
  "dYc self I = bind_e (yp self I) (\<lambda>P. bind_e (ym self I) (\<lambda>M.
     bind_e (getitem (spacing self) 1) (\<lambda>h. Inr (arr_div (arr_sub P M) (2 * h)))))"

definition ddYc :: "FD \<Rightarrow> arr \<Rightarrow> error + arr" where
  "ddYc self I = bind_e (yp self I) (\<lambda>P. bind_e (ym self I) (\<lambda>M.
     bind_e (getitem (spacing self) 1) (\<lambda>h.
       Inr (arr_div (arr_add (arr_sub P (arr_scale 2 I)) M) (h\<^sup>2)))))"

definition dZb :: "FD \<Rightarrow> arr \<Rightarrow> error + arr" where
  "dZb self I = bind_e (zm self I) (\<lambda>M. bind_e (getitem (spacing self) 2) (\<lambda>h.
     Inr (arr_div (arr_sub I M) h)))"

definition dZf :: "FD \<Rightarrow> arr \<Rightarrow> error + arr" where
  "dZf self I = bind_e (zp self I) (\<lambda>P. bind_e (getitem (spacing self) 2) (\<lambda>h.
     Inr (arr_div (arr_sub P I) h)))"

definition dZc :: "FD \<Rightarrow> arr \<Rightarrow> error + arr" where
  "dZc self I = bind_e (zp self I) (\<lambda>P. bind_e (zm self I) (\<lambda>M.
     bind_e (getitem (spacing self) 2) (\<lambda>h. Inr (arr_div (arr_sub P M) (2 * h)))))"

definition ddZc :: "FD \<Rightarrow> arr \<Rightarrow> error + arr" where
  "ddZc self I = bind_e (zp self I) (\<lambda>P. bind_e (zm self I) (\<lambda>M.
     bind_e (getitem (spacing self) 2) (\<lambda>h.
       Inr (arr_div (arr_add (arr_sub P (arr_scale 2 I)) M) (h\<^sup>2)))))"

definition lap :: "FD \<Rightarrow> arr \<Rightarrow> error + arr" where
  "lap self I =
     (let ndim = getdimension I in
      if ndim = 1 then ddXc self I
      else if ndim = 2 then
        bind_e (ddXc self I) (\<lambda>X. bind_e (ddYc self I) (\<lambda>Y. Inr (arr_add X Y)))
      else if ndim = 3 then
        bind_e (ddXc self I) (\<lambda>X. bind_e (ddYc self I) (\<lambda>Y.
          bind_e (ddZc self I) (\<lambda>Z. Inr (arr_add (arr_add X Y) Z))))
      else Inl dim_error)"

text \<open>The shift along axis \<open>k\<close>, for statements about "every axis": x, y, z are axes 0, 1, 2.\<close>

definition axis_plus :: "FD \<Rightarrow> nat \<Rightarrow> arr \<Rightarrow> error + arr" where
  "axis_plus self k I = (if k = 0 then xp self I else if k = 1 then yp self I else zp self I)"

definition axis_minus :: "FD \<Rightarrow> nat \<Rightarrow> arr \<Rightarrow> error + arr" where
  "axis_minus self k I = (if k = 0 then xm self I else if k = 1 then ym self I else zm self I)"

section \<open>Regularizer (pyreg/regularizer_factory.py)\<close>

text \<open>
  The parameter dictionary is read with \<open>params[(key, default, description)]\<close>: the stored
  value when the key is present, the default otherwise.
\<close>

record regularizer_params =
  p_alpha :: "real option"
  p_gamma :: "real option"

record Regularizer =
  spacing :: "real list"
  fdt :: FD
  volumeElement :: real
  dim :: nat
  params :: regularizer_params
  alpha :: real
  gamma :: real

definition HelmholtzRegularizer_init :: "real list \<Rightarrow> regularizer_params \<Rightarrow> error + Regularizer" where
  "HelmholtzRegularizer_init sp ps =
     bind_e (FD_torch sp) (\<lambda>fd.
       Inr \<lparr>spacing = sp, fdt = fd, volumeElement = prod_list sp, dim = length sp, params = ps,
            alpha = (case p_alpha ps of None \<Rightarrow> 0.2 | Some a \<Rightarrow> a),
            gamma = (case p_gamma ps of None \<Rightarrow> 1.0 | Some g \<Rightarrow> g)\<rparr>)"

definition set_alpha :: "real \<Rightarrow> Regularizer \<Rightarrow> Regularizer" where
  "set_alpha a self = self\<lparr>alpha := a\<rparr>"

definition set_gamma :: "real \<Rightarrow> Regularizer \<Rightarrow> Regularizer" where
  "set_gamma g self = self\<lparr>gamma := g\<rparr>"

text \<open>
  The right-hand side \<open>v[i,:] * gamma - self.fdt.lap(v[i,:]) * alpha\<close> (with \<open>k\<close> colons).
  The source stores it in slice \<open>i\<close> of a zero array \<open>Lv\<close> of the shape of \<open>v\<close> and reads
  that slice back; the model keeps the value.
\<close>

definition helmholtz_Lv :: "Regularizer \<Rightarrow> arr \<Rightarrow> nat \<Rightarrow> nat \<Rightarrow> real \<Rightarrow> real \<Rightarrow> error + arr" where
  "helmholtz_Lv self v i k al ga =
     bind_e (subarr v i k) (\<lambda>vi. bind_e (lap (fdt self) vi) (\<lambda>L.
       Inr (arr_sub (arr_times vi ga) (arr_times L al))))"

definition compute_regularizer_1d :: "Regularizer \<Rightarrow> arr \<Rightarrow> real \<Rightarrow> real \<Rightarrow> error + real" where
  "compute_regularizer_1d self v al ga =
     bind_e (helmholtz_Lv self v 0 1 al ga) (\<lambda>Lv0.
       Inr (arr_sum (arr_sq Lv0) * volumeElement self))"

definition compute_regularizer_2d :: "Regularizer \<Rightarrow> arr \<Rightarrow> real \<Rightarrow> real \<Rightarrow> error + real" where
  "compute_regularizer_2d self v al ga =
     bind_e (helmholtz_Lv self v 0 2 al ga) (\<lambda>Lv0.
     bind_e (helmholtz_Lv self v 1 2 al ga) (\<lambda>Lv1.
       Inr (arr_sum (arr_add (arr_sq Lv0) (arr_sq Lv1)) * volumeElement self)))"

definition compute_regularizer_3d :: "Regularizer \<Rightarrow> arr \<Rightarrow> real \<Rightarrow> real \<Rightarrow> error + real" where
  "compute_regularizer_3d self v al ga =
     bind_e (helmholtz_Lv self v 0 3 al ga) (\<lambda>Lv0.
     bind_e (helmholtz_Lv self v 1 3 al ga) (\<lambda>Lv1.
     bind_e (helmholtz_Lv self v 2 3 al ga) (\<lambda>Lv2.
       Inr (arr_sum (arr_add (arr_add (arr_sq Lv0) (arr_sq Lv1)) (arr_sq Lv2)) * volumeElement self))))"

definition compute_regularizer :: "Regularizer \<Rightarrow> arr \<Rightarrow> error + real" where
  "compute_regularizer self v =
     (if dim self = 1 then compute_regularizer_1d self v (alpha self) (gamma self)
      else if dim self = 2 then compute_regularizer_2d self v (alpha self) (gamma self)
      else if dim self = 3 then compute_regularizer_3d self v (alpha self) (gamma self)
      else Inl (ValueError ''Regularizer is currently only supported in dimensions 1 to 3''))"

text \<open>
  \<open>compute_regularizer_multiN\<close>: the loop over \<open>range(szv[0])\<close> with the accumulator
  \<open>reg\<close>, which starts as a zero tensor with one entry.
\<close>

fun multiN_loop :: "Regularizer \<Rightarrow> arr \<Rightarrow> real \<Rightarrow> nat list \<Rightarrow> error + real" where
  "multiN_loop self v reg [] = Inr reg"
| "multiN_loop self v reg (nrI # rest) =
     bind_e (subarr v nrI 0) (\<lambda>vi. bind_e (compute_regularizer self vi) (\<lambda>r.
       multiN_loop self v (reg + r) rest))"

definition compute_regularizer_multiN :: "Regularizer \<Rightarrow> arr \<Rightarrow> error + real" where
  "compute_regularizer_multiN self v =
     bind_e (getitem (shape v) 0) (\<lambda>n. multiN_loop self v 0 [0..<n])"

subsection \<open>The regularizer as the specification words it\<close>

text \<open>
  \<open>Lv = gamma * v - alpha * lap(v)\<close> componentwise, with the engine's Laplacian of
  component \<open>c\<close>; the sum over the components of the sums of the squared entries, times
  the volume element, the product of the spacings.
\<close>

definition helmholtz_norm :: "Regularizer \<Rightarrow> arr \<Rightarrow> real" where
  "helmholtz_norm self v =
     sum_list (map (\<lambda>c. asum (tl (shape v))
        (\<lambda>idx. (gamma self * entry v (c # idx) -
                 alpha self * entry (projr (lap (fdt self) (slice v c))) idx)\<^sup>2))
        [0..<dim self]) * prod_list (spacing self)"

section \<open>Smoothers (pyreg/smoother_factory.py)\<close>

record smoother_params =
  p_iter :: "int option"
  p_k_sz_h :: "nat list option"
  p_gaussian_std :: "real option"

text \<open>
  The modules \<open>utils\<close> and \<open>custom_pytorch_extensions\<close> and the torch padding and
  convolution routines are not part of the sources at hand. The functions the smoothers call
  from them are parameters of the model: \<open>conv_with_padding dim pad flt I\<close> stands for
  \<open>F.pad\<close> with replication followed by \<open>F.conv1d/2d/3d\<close> and the final \<open>view\<close>.
\<close>

record 'f extensions =
  identity_map :: "nat list \<Rightarrow> arr"
  compute_normalized_gaussian :: "arr \<Rightarrow> real list \<Rightarrow> real list \<Rightarrow> arr"
  create_complex_fourier_filter :: "arr \<Rightarrow> nat list \<Rightarrow> 'f"
  fourier_convolution :: "arr \<Rightarrow> 'f \<Rightarrow> arr"
  inverse_fourier_convolution :: "arr \<Rightarrow> 'f \<Rightarrow> arr"
  conv_with_padding :: "nat \<Rightarrow> nat list \<Rightarrow> arr \<Rightarrow> arr \<Rightarrow> arr"

record Smoother =
  sz :: "nat list"
  spacing :: "real list"
  fdt :: FD
  volumeElement :: real
  dim :: nat
  params :: smoother_params

record DiffusionSmoother = Smoother +
  iter :: int

definition DiffusionSmoother_init ::
    "nat list \<Rightarrow> real list \<Rightarrow> smoother_params \<Rightarrow> error + DiffusionSmoother" where
  "DiffusionSmoother_init gsz sp ps =
     bind_e (FD_torch sp) (\<lambda>fd.
       Inr \<lparr>sz = gsz, spacing = sp, fdt = fd, volumeElement = prod_list sp, dim = length sp,
            params = ps, iter = (case p_iter ps of None \<Rightarrow> 5 | Some n \<Rightarrow> n)\<rparr>)"

definition set_iter :: "int \<Rightarrow> DiffusionSmoother \<Rightarrow> DiffusionSmoother" where
  "set_iter n self = self\<lparr>iter := n\<rparr>"

text \<open>\<open>spacing.min()\<close> raises on an empty array.\<close>

definition array_min :: "real list \<Rightarrow> error + real" where
  "array_min xs =
     (if xs = [] then Inl (ValueError ''zero-size array to reduction operation minimum which has no identity'')
      else Inr (Min (set xs)))"

text \<open>
  The loop body of \<open>DiffusionSmoother.smooth_scalar_field\<close>:
  \<open>Sv + 0.5/(2**self.dim)*self.fdt.lap(Sv)*self.spacing.min()**2\<close>.
\<close>

definition diffusion_step :: "DiffusionSmoother \<Rightarrow> arr \<Rightarrow> error + arr" where
  "diffusion_step self Sv =
     bind_e (lap (Smoother.fdt self) Sv) (\<lambda>L.
     bind_e (array_min (Smoother.spacing self)) (\<lambda>m.
       Inr (arr_add Sv (arr_times (arr_scale (0.5 / 2 ^ Smoother.dim self) L) (m\<^sup>2)))))"

fun diffusion_loop :: "DiffusionSmoother \<Rightarrow> nat \<Rightarrow> arr \<Rightarrow> error + arr" where
  "diffusion_loop self 0 Sv = Inr Sv"
| "diffusion_loop self (Suc n) Sv = bind_e (diffusion_step self Sv) (diffusion_loop self n)"

text \<open>\<open>range(0, self.iter*2**self.dim)\<close> is empty when the product is not positive.\<close>

definition Diffusion_smooth_scalar_field :: "DiffusionSmoother \<Rightarrow> arr \<Rightarrow> error + arr" where
  "Diffusion_smooth_scalar_field self v =
     diffusion_loop self (nat (iter self * 2 ^ Smoother.dim self)) v"

text \<open>
  The update as the specification words it: \<open>v + (0.5 / 2^dim) * lap(v) * min(spacing)^2\<close>,
  with the engine's Laplacian.
\<close>

definition heat_update :: "DiffusionSmoother \<Rightarrow> arr \<Rightarrow> arr" where
  "heat_update self Sv =
     \<lparr>shape = shape Sv,
      entry = (\<lambda>idx. entry Sv idx +
                 (0.5 / 2 ^ Smoother.dim self) * entry (projr (lap (Smoother.fdt self) Sv)) idx *
                 (Min (set (Smoother.spacing self)))\<^sup>2)\<rparr>"

definition inversion_error :: error where
  "inversion_error =
     ValueError ''Sorry: Inversion of smoothing only supported for Fourier-based filters at the moment''"

definition Diffusion_inverse_smooth_scalar_field :: "DiffusionSmoother \<Rightarrow> arr \<Rightarrow> error + arr" where
  "Diffusion_inverse_smooth_scalar_field self v = Inl inversion_error"

text \<open>
  The spatial Gaussian smoother. \<open>k_sz\<close>, \<open>smoothingKernel\<close> and \<open>required_padding\<close> are
  attributes that only \<open>_create_filter\<close> assigns; \<open>None\<close> stands for "not assigned yet".
\<close>

record GaussianSpatialSmoother = Smoother +
  k_sz_h :: "nat list option"
  filter_attr :: "arr option"
  k_sz :: "nat list option"
  smoothingKernel :: "arr option"
  required_padding :: "nat list option"

definition GaussianSpatialSmoother_init ::
    "nat list \<Rightarrow> real list \<Rightarrow> smoother_params \<Rightarrow> error + GaussianSpatialSmoother" where
  "GaussianSpatialSmoother_init gsz sp ps =
     bind_e (FD_torch sp) (\<lambda>fd.
       Inr \<lparr>sz = gsz, spacing = sp, fdt = fd, volumeElement = prod_list sp, dim = length sp,
            params = ps, k_sz_h = p_k_sz_h ps, filter_attr = None,
            k_sz = None, smoothingKernel = None, required_padding = None\<rparr>)"

definition set_k_sz_h :: "nat list option \<Rightarrow> GaussianSpatialSmoother \<Rightarrow> GaussianSpatialSmoother" where
  "set_k_sz_h k self = self\<lparr>k_sz_h := k\<rparr>"

definition create_smoothing_kernel :: "'f extensions \<Rightarrow> GaussianSpatialSmoother \<Rightarrow> nat list \<Rightarrow> arr" where
  "create_smoothing_kernel ext self ksz =
     (let mus = replicate (Smoother.dim self) 0;
          stds = replicate (Smoother.dim self) 1;
          idm = identity_map ext ksz
      in compute_normalized_gaussian ext idm mus stds)"

text \<open>
  \<open>GaussianSpatialSmoother._create_filter\<close>. A method returns its exception or nothing,
  together with the object as the statements before the exception left it. The method
  body reads the bare names \<open>k_sz_h\<close>, \<open>sz\<close> and \<open>k_sz\<close>; they are neither locals nor
  globals of the module (the attributes are \<open>self.k_sz_h\<close>, \<open>self.sz\<close>, \<open>self.k_sz\<close>), so
  evaluating them raises NameError. In the \<open>view\<close> argument list \<open>[sz[0], ...]\<close> the first
  name evaluated is \<open>sz\<close>.
\<close>

definition Spatial_create_filter ::
    "'f extensions \<Rightarrow> GaussianSpatialSmoother \<Rightarrow> (error + unit) \<times> GaussianSpatialSmoother" where
  "Spatial_create_filter ext self =
     (case k_sz_h self of
        Some h \<Rightarrow> (Inl (NameError ''k_sz_h''), self)
      | None \<Rightarrow>
         (let ksz = replicate (Smoother.dim self) (2 * 5 + 1);
              s1 = self\<lparr>k_sz := Some ksz\<rparr>;
              s2 = s1\<lparr>smoothingKernel := Some (create_smoothing_kernel ext s1 ksz)\<rparr>;
              s3 = s2\<lparr>required_padding := Some (map (\<lambda>k. (k - 1) div 2) ksz)\<rparr>
          in if Smoother.dim s3 = 1 then (Inl (NameError ''sz''), s3)
             else if Smoother.dim s3 = 2 then (Inl (NameError ''sz''), s3)
             else if Smoother.dim s3 = 3 then (Inl (NameError ''sz''), s3)
             else (Inl (ValueError ''Can only create the smoothing kernel in dimensions 1-3''), s3)))"

definition filter_input_with_padding ::
    "'f extensions \<Rightarrow> GaussianSpatialSmoother \<Rightarrow> arr \<Rightarrow> error + arr" where
  "filter_input_with_padding ext self I =
     (if Smoother.dim self = 1 \<or> Smoother.dim self = 2 \<or> Smoother.dim self = 3 then
        (case required_padding self of
           None \<Rightarrow> Inl (AttributeError ''required_padding'')
         | Some pad \<Rightarrow>
            (case filter_attr self of
               None \<Rightarrow> Inl TypeError
             | Some flt \<Rightarrow> Inr (conv_with_padding ext (Smoother.dim self) pad flt I)))
      else Inl (ValueError ''Can only perform padding in dimensions 1-3''))"

definition Spatial_smooth_scalar_field ::
    "'f extensions \<Rightarrow> GaussianSpatialSmoother \<Rightarrow> arr \<Rightarrow> (error + arr) \<times> GaussianSpatialSmoother" where
  "Spatial_smooth_scalar_field ext self v =
     (if filter_attr self = None then
        (case Spatial_create_filter ext self of
           (Inl e, s') \<Rightarrow> (Inl e, s')
         | (Inr _, s') \<Rightarrow> (filter_input_with_padding ext s' v, s'))
      else (filter_input_with_padding ext self v, self))"

definition Spatial_inverse_smooth_scalar_field ::
    "GaussianSpatialSmoother \<Rightarrow> arr \<Rightarrow> error + arr" where
  "Spatial_inverse_smooth_scalar_field self v = Inl inversion_error"

text \<open>The Fourier Gaussian smoother; \<open>FFilter\<close> is \<open>None\<close> until the first use.\<close>

record 'f GaussianFourierSmoother = Smoother +
  gaussianStd :: real
  FFilter :: "'f option"

definition GaussianFourierSmoother_init ::
    "nat list \<Rightarrow> real list \<Rightarrow> smoother_params \<Rightarrow> error + 'f GaussianFourierSmoother" where
  "GaussianFourierSmoother_init gsz sp ps =
     bind_e (FD_torch sp) (\<lambda>fd.
       Inr \<lparr>sz = gsz, spacing = sp, fdt = fd, volumeElement = prod_list sp, dim = length sp,
            params = ps, gaussianStd = (case p_gaussian_std ps of None \<Rightarrow> 0.15 | Some g \<Rightarrow> g),
            FFilter = None\<rparr>)"

definition Fourier_create_filter ::
    "'f extensions \<Rightarrow> 'f GaussianFourierSmoother \<Rightarrow> 'f GaussianFourierSmoother" where
  "Fourier_create_filter ext self =
     (let mus = replicate (Smoother.dim self) 0;
          stds = map (\<lambda>one. gaussianStd self * one) (replicate (Smoother.dim self) 1);
          idm = identity_map ext (sz self);
          g = compute_normalized_gaussian ext idm mus stds
      in self\<lparr>FFilter := Some (create_complex_fourier_filter ext g (sz self))\<rparr>)"

definition set_gaussian_std :: "real \<Rightarrow> 'f GaussianFourierSmoother \<Rightarrow> 'f GaussianFourierSmoother" where
  "set_gaussian_std gstd self = self\<lparr>gaussianStd := gstd\<rparr>"

definition get_gaussian_std :: "'f GaussianFourierSmoother \<Rightarrow> real" where
  "get_gaussian_std self = gaussianStd self"

text \<open>
  Both smoothing methods build the filter when it is \<open>None\<close> and then read it. They
  return the result and the object, whose filter is set from then on.
\<close>

definition Fourier_smooth_scalar_field ::
    "'f extensions \<Rightarrow> 'f GaussianFourierSmoother \<Rightarrow> arr \<Rightarrow> (error + arr) \<times> 'f GaussianFourierSmoother" where
  "Fourier_smooth_scalar_field ext self v =
     (let s' = (if FFilter self = None then Fourier_create_filter ext self else self)
      in case FFilter s' of
           Some F \<Rightarrow> (Inr (fourier_convolution ext v F), s')
         | None \<Rightarrow> (Inl TypeError, s'))"

definition Fourier_inverse_smooth_scalar_field ::
    "'f extensions \<Rightarrow> 'f GaussianFourierSmoother \<Rightarrow> arr \<Rightarrow> (error + arr) \<times> 'f GaussianFourierSmoother" where
  "Fourier_inverse_smooth_scalar_field ext self v =
     (let s' = (if FFilter self = None then Fourier_create_filter ext self else self)
      in case FFilter s' of
           Some F \<Rightarrow> (Inr (inverse_fourier_convolution ext v F), s')
         | None \<Rightarrow> (Inl TypeError, s'))"

text \<open>
  The three classes that \<open>SmootherFactory.create_smoother\<close> instantiates, and the method
  call \<open>s.inverse_smooth_scalar_field(v)\<close> resolved by the class of \<open>s\<close>.
\<close>

datatype 'f smoother_obj =
    Diffusion DiffusionSmoother
  | GaussianSpatial GaussianSpatialSmoother
  | GaussianFourier "'f GaussianFourierSmoother"

fun inverse_smooth_scalar_field ::
    "'f extensions \<Rightarrow> 'f smoother_obj \<Rightarrow> arr \<Rightarrow> (error + arr) \<times> 'f smoother_obj" where
  "inverse_smooth_scalar_field ext (Diffusion s) v =
     (Diffusion_inverse_smooth_scalar_field s v, Diffusion s)"
| "inverse_smooth_scalar_field ext (GaussianSpatial s) v =
     (Spatial_inverse_smooth_scalar_field s v, GaussianSpatial s)"
| "inverse_smooth_scalar_field ext (GaussianFourier s) v =
     (case Fourier_inverse_smooth_scalar_field ext s v of (r, s') \<Rightarrow> (r, GaussianFourier s'))"

definition is_fourier :: "'f smoother_obj \<Rightarrow> bool" where
  "is_fourier s =
     (case s of Diffusion d \<Rightarrow> False | GaussianSpatial g \<Rightarrow> False | GaussianFourier f \<Rightarrow> True)"

text \<open>
  A client that calls \<open>smooth_scalar_field\<close> of one spatial Gaussian smoother on the fields
  \<open>vs\<close> in turn, catching every exception: the outcomes of the calls, in order.
\<close>

fun Spatial_smooth_calls ::
    "'f extensions \<Rightarrow> GaussianSpatialSmoother \<Rightarrow> arr list \<Rightarrow> (error + arr) list" where
  "Spatial_smooth_calls ext self [] = []"
| "Spatial_smooth_calls ext self (v # vs) =
     (case Spatial_smooth_scalar_field ext self v of
        (r, s') \<Rightarrow> r # Spatial_smooth_calls ext s' vs)"

section \<open>Runge-Kutta integrators (pyreg/rungekutta_integrators.py)\<close>

text \<open>
  The state argument \<open>x\<close> is an arbitrary Python object. The model distinguishes a list,
  a tuple (iterable and indexable like a list, but \<open>type(x) == list\<close> is false) and
  \<open>None\<close> (neither iterable nor indexable). The elements of the state are fields; the
  integrator only adds them and multiplies or divides them by numbers, so they are
  elements of a real vector space. The right-hand side \<open>f\<close> is supplied by the caller;
  it receives the state as it was passed and returns a list.
\<close>

datatype 'a pyobj = PyList "'a list" | PyTuple "'a list" | PyNone

definition is_list :: "'a pyobj \<Rightarrow> bool" where
  "is_list x = (case x of PyList xs \<Rightarrow> True | PyTuple xs \<Rightarrow> False | PyNone \<Rightarrow> False)"

definition items :: "'a pyobj \<Rightarrow> error + 'a list" where
  "items x = (case x of PyList xs \<Rightarrow> Inr xs | PyTuple xs \<Rightarrow> Inr xs | PyNone \<Rightarrow> Inl TypeError)"

definition obj_len :: "'a pyobj \<Rightarrow> error + nat" where
  "obj_len x = bind_e (items x) (\<lambda>xs. Inr (length xs))"

definition obj_getitem :: "'a pyobj \<Rightarrow> nat \<Rightarrow> error + 'a" where
  "obj_getitem x i = bind_e (items x) (\<lambda>xs. getitem xs i)"

record ('a, 'u, 'p) RKIntegrator =
  nrOfTimeSteps :: int
  f_rhs :: "real \<Rightarrow> 'a pyobj \<Rightarrow> 'u \<Rightarrow> 'p \<Rightarrow> 'a list"
  pars :: 'p
  u_ctl :: "real \<Rightarrow> 'p \<Rightarrow> 'u"

definition set_number_of_time_steps ::
    "int \<Rightarrow> ('a, 'u, 'p) RKIntegrator \<Rightarrow> ('a, 'u, 'p) RKIntegrator" where
  "set_number_of_time_steps nr self = self\<lparr>nrOfTimeSteps := nr\<rparr>"

text \<open>\<open>[a+b*v for a,b in zip(x,y)]\<close>, \<open>[a*v for a in x]\<close>, \<open>[a+b for a,b in zip(x,y)]\<close>.\<close>

definition xpyts :: "('a::real_vector) pyobj \<Rightarrow> 'a list \<Rightarrow> real \<Rightarrow> error + 'a list" where
  "xpyts x y v = bind_e (items x) (\<lambda>xs. Inr (map (\<lambda>(a, b). a + v *\<^sub>R b) (zip xs y)))"

definition xts :: "('a::real_vector) list \<Rightarrow> real \<Rightarrow> 'a list" where
  "xts x v = map (\<lambda>a. v *\<^sub>R a) x"

definition xpy :: "('a::real_vector) pyobj \<Rightarrow> 'a list \<Rightarrow> error + 'a list" where
  "xpy x y = bind_e (items x) (\<lambda>xs. Inr (map (\<lambda>(a, b). a + b) (zip xs y)))"

definition EulerForward_solve_one_step ::
    "('a::real_vector, 'u, 'p) RKIntegrator \<Rightarrow> 'a pyobj \<Rightarrow> real \<Rightarrow> real \<Rightarrow> error + 'a pyobj" where
  "EulerForward_solve_one_step self x t dt =
     bind_e (xpyts x (f_rhs self t x (u_ctl self t (pars self)) (pars self)) dt) (\<lambda>xp1.
       Inr (PyList xp1))"

text \<open>
  The final loop of \<open>RK4.solve_one_step\<close>, over \<open>range(len(x))\<close>, appending
  \<open>x[i] + k1[i]/6. + k2[i]/3. + k3[i]/3. + k4[i]/6.\<close> to \<open>xp1\<close>.
\<close>

fun rk4_loop :: "('a::real_vector) pyobj \<Rightarrow> 'a list \<Rightarrow> 'a list \<Rightarrow> 'a list \<Rightarrow> 'a list \<Rightarrow>
    nat list \<Rightarrow> 'a list \<Rightarrow> error + 'a list" where
  "rk4_loop x k1 k2 k3 k4 [] xp1 = Inr xp1"
| "rk4_loop x k1 k2 k3 k4 (i # rest) xp1 =
     bind_e (obj_getitem x i) (\<lambda>xi. bind_e (getitem k1 i) (\<lambda>k1i. bind_e (getitem k2 i) (\<lambda>k2i.
     bind_e (getitem k3 i) (\<lambda>k3i. bind_e (getitem k4 i) (\<lambda>k4i.
       rk4_loop x k1 k2 k3 k4 rest
         (xp1 @ [xi + k1i /\<^sub>R 6 + k2i /\<^sub>R 3 + k3i /\<^sub>R 3 + k4i /\<^sub>R 6]))))))"

definition RK4_solve_one_step ::
    "('a::real_vector, 'u, 'p) RKIntegrator \<Rightarrow> 'a pyobj \<Rightarrow> real \<Rightarrow> real \<Rightarrow> error + 'a pyobj" where
  "RK4_solve_one_step self x t dt =
     (let k1 = xts (f_rhs self t x (u_ctl self t (pars self)) (pars self)) dt in
      bind_e (xpyts x k1 0.5) (\<lambda>x2.
      let k2 = xts (f_rhs self (t + 0.5 * dt) (PyList x2) (u_ctl self (t + 0.5 * dt) (pars self))
                     (pars self)) dt in
      bind_e (xpyts x k2 0.5) (\<lambda>x3.
      let k3 = xts (f_rhs self (t + 0.5 * dt) (PyList x3) (u_ctl self (t + 0.5 * dt) (pars self))
                     (pars self)) dt in
      bind_e (xpy x k3) (\<lambda>x4.
      let k4 = xts (f_rhs self (t + dt) (PyList x4) (u_ctl self (t + dt) (pars self))
                     (pars self)) dt in
      bind_e (obj_len x) (\<lambda>n.
      bind_e (rk4_loop x k1 k2 k3 k4 [0..<n] []) (\<lambda>xp1. Inr (PyList xp1)))))))"

text \<open>
  \<open>np.linspace(start, stop, num)\<close>: \<open>num\<close> evenly spaced samples from \<open>start\<close> to \<open>stop\<close>,
  both included; a single sample is \<open>start\<close>; a negative \<open>num\<close> raises.
\<close>

definition linspace :: "real \<Rightarrow> real \<Rightarrow> int \<Rightarrow> error + real list" where
  "linspace start stop num =
     (if num < 0 then Inl (ValueError ''Number of samples must be non-negative'')
      else if num = 1 then Inr [start]
      else Inr (map (\<lambda>i. start + real i * ((stop - start) / real (nat num - 1))) [0..<nat num]))"

text \<open>
  The loop of \<open>RKIntegrator.solve\<close>: \<open>n\<close> remaining iterations, each replacing \<open>x\<close> by the
  result of \<open>solve_one_step\<close> and adding \<open>dt\<close> to \<open>currentT\<close>. \<open>solve_one_step\<close> is the
  method of the subclass.
\<close>

fun solve_loop :: "('a pyobj \<Rightarrow> real \<Rightarrow> real \<Rightarrow> error + 'a pyobj) \<Rightarrow> nat \<Rightarrow> 'a pyobj \<Rightarrow> real \<Rightarrow> real \<Rightarrow>
    error + 'a pyobj" where
  "solve_loop step 0 x currentT dt = Inr x"
| "solve_loop step (Suc n) x currentT dt =
     bind_e (step x currentT dt) (\<lambda>x'. solve_loop step n x' (currentT + dt) dt)"

definition solve ::
    "(('a, 'u, 'p) RKIntegrator \<Rightarrow> 'a pyobj \<Rightarrow> real \<Rightarrow> real \<Rightarrow> error + 'a pyobj) \<Rightarrow>
     ('a, 'u, 'p) RKIntegrator \<Rightarrow> 'a pyobj \<Rightarrow> real \<Rightarrow> real \<Rightarrow> error + 'a pyobj" where
  "solve solve_one_step self x fromT toT =
     (if \<not> is_list x then Inl AssertionError
      else bind_e (linspace fromT toT (nrOfTimeSteps self + 1)) (\<lambda>timepoints.
           bind_e (getitem timepoints 1) (\<lambda>t1. bind_e (getitem timepoints 0) (\<lambda>t0.
           let dt = t1 - t0 in
           solve_loop (solve_one_step self) (nat (nrOfTimeSteps self)) x fromT dt))))"

definition EulerForward_solve ::
    "('a::real_vector, 'u, 'p) RKIntegrator \<Rightarrow> 'a pyobj \<Rightarrow> real \<Rightarrow> real \<Rightarrow> error + 'a pyobj" where
  "EulerForward_solve = solve EulerForward_solve_one_step"

definition RK4_solve ::
    "('a::real_vector, 'u, 'p) RKIntegrator \<Rightarrow> 'a pyobj \<Rightarrow> real \<Rightarrow> real \<Rightarrow> error + 'a pyobj" where
  "RK4_solve = solve RK4_solve_one_step"

subsection \<open>The integration scheme as the specification words it\<close>

text \<open>
  The classical four-stage update, elementwise over the state list:
  \<open>k1 = f(t, x)\<close>, \<open>k2 = f(t+dt/2, x+dt/2*k1)\<close>, \<open>k3 = f(t+dt/2, x+dt/2*k2)\<close>,
  \<open>k4 = f(t+dt, x+dt*k3)\<close>, \<open>x + dt/6*(k1+2*k2+2*k3+k4)\<close>, every stage with the control
  input at its stage time and the shared parameters.
\<close>

definition rk4_stage :: "('a::real_vector, 'u, 'p) RKIntegrator \<Rightarrow> real \<Rightarrow> 'a list \<Rightarrow> 'a list" where
  "rk4_stage self t y = f_rhs self t (PyList y) (u_ctl self t (pars self)) (pars self)"

definition rk4_formula ::
    "('a::real_vector, 'u, 'p) RKIntegrator \<Rightarrow> real \<Rightarrow> real \<Rightarrow> 'a list \<Rightarrow> 'a list" where
  "rk4_formula self t dt x =
     (let k1 = rk4_stage self t x;
          k2 = rk4_stage self (t + dt / 2) (map2 (\<lambda>a k. a + (dt / 2) *\<^sub>R k) x k1);
          k3 = rk4_stage self (t + dt / 2) (map2 (\<lambda>a k. a + (dt / 2) *\<^sub>R k) x k2);
          k4 = rk4_stage self (t + dt) (map2 (\<lambda>a k. a + dt *\<^sub>R k) x k3)
      in map (\<lambda>i. x ! i + (dt / 6) *\<^sub>R (k1 ! i + 2 *\<^sub>R (k2 ! i) + 2 *\<^sub>R (k3 ! i) + k4 ! i))
           [0..<length x])"

text \<open>
  \<open>N\<close> equal steps of \<open>dt = (toT - fromT) / N\<close>: step \<open>n\<close> starts at time
  \<open>fromT + n * dt\<close> from the state that step \<open>n - 1\<close> produced.
\<close>

definition equal_steps :: "(real \<Rightarrow> real \<Rightarrow> 'a \<Rightarrow> 'a) \<Rightarrow> nat \<Rightarrow> 'a \<Rightarrow> real \<Rightarrow> real \<Rightarrow> 'a" where
  "equal_steps upd N x fromT toT =
     (let dt = (toT - fromT) / real N
      in fold (\<lambda>n y. upd (fromT + real n * dt) dt y) [0..<N] x)"

section \<open>Example objects\<close>

text \<open>A three-dimensional engine with the zero-Neumann policy, one with linear extrapolation, and a field.\<close>

definition ex_fd3 :: FD where
  "ex_fd3 = \<lparr>FD.dim = 3, spacing = [1, 1 / 2, 1 / 4], bcNeumannZero = True\<rparr>"

definition ex_fd3_lin :: FD where
  "ex_fd3_lin = \<lparr>FD.dim = 3, spacing = [1, 1 / 2, 1 / 4], bcNeumannZero = False\<rparr>"

definition ex_field3 :: arr where
  "ex_field3 = \<lparr>shape = [2, 3, 2],
                 entry = (\<lambda>idx. 2 * real (idx ! 0) + (real (idx ! 1))\<^sup>2 + 3 * real (idx ! 2))\<rparr>"

text \<open>The decay equation \<open>dx/dt = -x\<close>, integrated in two steps; no control input, no parameters.\<close>

definition neg_rhs :: "real \<Rightarrow> real pyobj \<Rightarrow> unit \<Rightarrow> unit \<Rightarrow> real list" where
  "neg_rhs t x w p =
     (case x of PyList ys \<Rightarrow> map uminus ys | PyTuple ys \<Rightarrow> map uminus ys | PyNone \<Rightarrow> [])"

definition decay :: "(real, unit, unit) RKIntegrator" where
  "decay = \<lparr>nrOfTimeSteps = 2, f_rhs = neg_rhs, pars = (), u_ctl = (\<lambda>t p. ())\<rparr>"

text \<open>
  One-dimensional objects on a grid of three points with spacing \<open>1/2\<close>, as the constructors
  build them (the diffusion smoother with one iteration), and simple stand-ins for the external
  functions: the "filter" is the sum of the standard deviations, convolution multiplies by
  it and inverse convolution divides by it.
\<close>

definition ex_ext :: "real extensions" where
  "ex_ext = \<lparr>identity_map = (\<lambda>n. \<lparr>shape = n, entry = (\<lambda>idx. 0)\<rparr>),
            compute_normalized_gaussian =
              (\<lambda>idm mus stds. \<lparr>shape = shape idm, entry = (\<lambda>idx. sum_list stds)\<rparr>),
            create_complex_fourier_filter = (\<lambda>g n. entry g []),
            fourier_convolution = (\<lambda>v F. arr_times v F),
            inverse_fourier_convolution = (\<lambda>v F. arr_div v F),
            conv_with_padding = (\<lambda>d pad flt I. I)\<rparr>"

definition no_params :: smoother_params where
  "no_params = \<lparr>p_iter = None, p_k_sz_h = None, p_gaussian_std = None\<rparr>"

definition ex_field1 :: arr where
  "ex_field1 = \<lparr>shape = [3], entry = (\<lambda>idx. [1, 4, 9] ! (idx ! 0))\<rparr>"

definition ex_fd1 :: FD where
  "ex_fd1 = \<lparr>FD.dim = 1, spacing = [1 / 2], bcNeumannZero = True\<rparr>"

definition ex_fourier :: "real GaussianFourierSmoother" where
  "ex_fourier = \<lparr>sz = [3], spacing = [1 / 2], fdt = ex_fd1, volumeElement = 1 / 2, dim = 1,
                 params = no_params, gaussianStd = 15 / 100, FFilter = None\<rparr>"

definition ex_spatial :: GaussianSpatialSmoother where
  "ex_spatial = \<lparr>sz = [3], spacing = [1 / 2], fdt = ex_fd1, volumeElement = 1 / 2, dim = 1,
                 params = no_params, k_sz_h = None, filter_attr = None,
                 k_sz = None, smoothingKernel = None, required_padding = None\<rparr>"

definition ex_diffusion :: DiffusionSmoother where
  "ex_diffusion = \<lparr>sz = [3], spacing = [1 / 2], fdt = ex_fd1, volumeElement = 1 / 2, dim = 1,
                   params = no_params\<lparr>p_iter := Some 1\<rparr>, iter = 1\<rparr>"

text \<open>
  The regularizer on that grid with the default weights, a one-component vector field and
  a batch of two vector fields, the second twice the first.
\<close>

definition reg_defaults :: regularizer_params where
  "reg_defaults = \<lparr>p_alpha = None, p_gamma = None\<rparr>"

definition ex_reg :: Regularizer where
  "ex_reg = \<lparr>Regularizer.spacing = [1 / 2], fdt = ex_fd1, volumeElement = 1 / 2, dim = 1,
             params = reg_defaults, alpha = 2 / 10, gamma = 1\<rparr>"

definition ex_vfield :: arr where
  "ex_vfield = \<lparr>shape = [1, 3], entry = (\<lambda>idx. [1, 4, 9] ! (idx ! 1))\<rparr>"

definition ex_batch :: arr where
  "ex_batch = \<lparr>shape = [2, 1, 3], entry = (\<lambda>idx. real (idx ! 0 + 1) * [1, 4, 9] ! (idx ! 2))\<rparr>"

section \<open>Properties of the finite-difference engine\<close>

lemma FD_init_fields:
  assumes "FD_init sp bc = Inr self"
  shows "FD.dim self = length sp" "FD.spacing self = sp" "bcNeumannZero self = bc"
    "length sp = 1 \<or> length sp = 2 \<or> length sp = 3"
proof -
  have two: "\<And>xs::real list. length xs = 2 \<Longrightarrow> [xs ! 0, xs ! 1] = xs"
    by (rule nth_equalityI) (auto simp: less_Suc_eq)
  have one: "\<And>xs::real list. length xs = 1 \<Longrightarrow> [xs ! 0] = xs"
    by (rule nth_equalityI) auto
  show "FD.dim self = length sp" "bcNeumannZero self = bc"
    "length sp = 1 \<or> length sp = 2 \<or> length sp = 3"
    using assms by (auto simp: FD_init_def split: if_splits)
  show "FD.spacing self = sp"
    using assms one[of sp] two[of sp] by (auto simp: FD_init_def split: if_splits)
qed

lemma axis_plus_shift:
  assumes "k < getdimension I" "getdimension I \<le> 3"
  shows "axis_plus self k I = shift_plus (bcNeumannZero self) k I"
proof -
  from assms have "k = 0 \<or> k = 1 \<or> k = 2" by arith
  moreover from assms have "getdimension I = 1 \<or> getdimension I = 2 \<or> getdimension I = 3" by arith
  ultimately show ?thesis using assms(1)
    by (auto simp: axis_plus_def xp_def yp_def zp_def Let_def)
qed

lemma axis_minus_shift:
  assumes "k < getdimension I" "getdimension I \<le> 3"
  shows "axis_minus self k I = shift_minus (bcNeumannZero self) k I"
proof -
  from assms have "k = 0 \<or> k = 1 \<or> k = 2" by arith
  moreover from assms have "getdimension I = 1 \<or> getdimension I = 2 \<or> getdimension I = 3" by arith
  ultimately show ?thesis using assms(1)
    by (auto simp: axis_minus_def xm_def ym_def zm_def Let_def)
qed

lemma list_update_same: "idx ! k = v \<Longrightarrow> idx[k := v] = idx"
  by auto

text \<open>
  C5. For an engine built by \<open>FD.__init__\<close> and a scalar field of the engine's dimension
  whose axes are non-empty (of size at least 2 under linear extrapolation), the backward,
  forward and central differences along x all return, and the central difference is the
  average of the forward and the backward one at every point of the grid, so in
  particular at the interior points; likewise along y when the dimension is at least 2
  and along z when it is 3.
\<close>

theorem central_is_average:
  assumes "FD_init sp bc = Inr self" and "getdimension I = FD.dim self"
    and "\<forall>n\<in>set (shape I). 0 < n \<and> (bcNeumannZero self \<or> 2 \<le> n)"
  shows "(\<exists>C F B. dXc self I = Inr C \<and> dXf self I = Inr F \<and> dXb self I = Inr B \<and>
           shape C = shape I \<and> (\<forall>idx. entry C idx = (entry F idx + entry B idx) / 2)) \<and>
         (2 \<le> FD.dim self \<longrightarrow>
           (\<exists>C F B. dYc self I = Inr C \<and> dYf self I = Inr F \<and> dYb self I = Inr B \<and>
             shape C = shape I \<and> (\<forall>idx. entry C idx = (entry F idx + entry B idx) / 2))) \<and>
         (FD.dim self = 3 \<longrightarrow>
           (\<exists>C F B. dZc self I = Inr C \<and> dZf self I = Inr F \<and> dZb self I = Inr B \<and>
             shape C = shape I \<and> (\<forall>idx. entry C idx = (entry F idx + entry B idx) / 2)))"
proof -
  note fd = FD_init_fields[OF assms(1)]
  have d: "FD.dim self = 1 \<or> FD.dim self = 2 \<or> FD.dim self = 3" using fd by simp
  have l: "length (FD.spacing self) = FD.dim self" using fd by simp
  have n: "\<And>k. k < FD.dim self \<Longrightarrow> 0 < shape I ! k \<and> (bcNeumannZero self \<or> 2 \<le> shape I ! k)"
    using assms(2,3) by (simp add: getdimension_def)
  have avg: "\<And>p m i h::real. (p - m) / (2 * h) = ((p - i) / h + (i - m) / h) / 2"
    by (simp add: add_divide_distrib[symmetric])
  have X: "\<exists>C F B. dXc self I = Inr C \<and> dXf self I = Inr F \<and> dXb self I = Inr B \<and>
           shape C = shape I \<and> (\<forall>idx. entry C idx = (entry F idx + entry B idx) / 2)"
    using assms(2) d l n[of 0] avg
    by (auto simp: dXc_def dXf_def dXb_def xp_def xm_def shift_plus_def shift_minus_def Let_def
        bind_e_def getitem_def arr_div_def arr_sub_def)
  have Y: "2 \<le> FD.dim self \<longrightarrow>
         (\<exists>C F B. dYc self I = Inr C \<and> dYf self I = Inr F \<and> dYb self I = Inr B \<and>
           shape C = shape I \<and> (\<forall>idx. entry C idx = (entry F idx + entry B idx) / 2))"
    using assms(2) d l n[of 1] avg
    by (auto simp: dYc_def dYf_def dYb_def yp_def ym_def shift_plus_def shift_minus_def Let_def
        bind_e_def getitem_def arr_div_def arr_sub_def)
  have Z: "FD.dim self = 3 \<longrightarrow>
         (\<exists>C F B. dZc self I = Inr C \<and> dZf self I = Inr F \<and> dZb self I = Inr B \<and>
           shape C = shape I \<and> (\<forall>idx. entry C idx = (entry F idx + entry B idx) / 2))"
    using assms(2) d l n[of 2] avg
    by (auto simp: dZc_def dZf_def dZb_def zp_def zm_def shift_plus_def shift_minus_def Let_def
        bind_e_def getitem_def arr_div_def arr_sub_def)
  from X Y Z show ?thesis by blast
qed

theorem central_is_average_witness:
  "FD_init [1, 1 / 2, 1 / 4] True = Inr ex_fd3 \<and> getdimension ex_field3 = FD.dim ex_fd3 \<and>
   shape ex_field3 = [2, 3, 2] \<and> bcNeumannZero ex_fd3 \<and>
   (\<exists>C F B. dXc ex_fd3 ex_field3 = Inr C \<and> dXf ex_fd3 ex_field3 = Inr F \<and>
      dXb ex_fd3 ex_field3 = Inr B \<and> (\<forall>idx. entry C idx = (entry F idx + entry B idx) / 2)) \<and>
   (\<exists>C F B. dYc ex_fd3 ex_field3 = Inr C \<and> dYf ex_fd3 ex_field3 = Inr F \<and>
      dYb ex_fd3 ex_field3 = Inr B \<and> (\<forall>idx. entry C idx = (entry F idx + entry B idx) / 2)) \<and>
   (\<exists>C F B. dZc ex_fd3 ex_field3 = Inr C \<and> dZf ex_fd3 ex_field3 = Inr F \<and>
      dZb ex_fd3 ex_field3 = Inr B \<and> (\<forall>idx. entry C idx = (entry F idx + entry B idx) / 2))"
proof -
  have h1: "FD_init [1, 1 / 2, 1 / 4] True = Inr ex_fd3" by (simp add: FD_init_def ex_fd3_def)
  have h2: "getdimension ex_field3 = FD.dim ex_fd3"
    by (simp add: getdimension_def ex_field3_def ex_fd3_def)
  have h3: "\<forall>n\<in>set (shape ex_field3). 0 < n \<and> (bcNeumannZero ex_fd3 \<or> 2 \<le> n)"
    by (simp add: ex_field3_def ex_fd3_def)
  have d: "FD.dim ex_fd3 = 3" by (simp add: ex_fd3_def)
  have h4: "shape ex_field3 = [2, 3, 2]" "bcNeumannZero ex_fd3"
    by (simp_all add: ex_field3_def ex_fd3_def)
  show ?thesis using central_is_average [OF h1 h2 h3] h1 h2 h4 d by simp blast
qed

text \<open>
  C6. For a field of one to three dimensions, an axis \<open>k\<close> of the field that is not empty
  (of size at least 2 under linear extrapolation) and a grid point \<open>idx\<close>: both shifts
  along the axis return a field of the same shape; at the last index of the axis the
  forward shift is the field's own value there under the zero-Neumann policy and
  \<open>2 * edge - neighbour\<close> under linear extrapolation, and at the first index the same
  holds for the backward shift.
\<close>

theorem shift_boundary:
  assumes "k < getdimension I" and "getdimension I \<le> 3"
    and "0 < shape I ! k" and "bcNeumannZero self \<or> 2 \<le> shape I ! k"
  shows "\<exists>P M. axis_plus self k I = Inr P \<and> axis_minus self k I = Inr M \<and>
           shape P = shape I \<and> shape M = shape I \<and>
           (\<forall>idx. (idx ! k = shape I ! k - 1 \<longrightarrow>
                     entry P idx = (if bcNeumannZero self then entry I idx
                                    else 2 * entry I idx - entry I (idx[k := shape I ! k - 2]))) \<and>
                  (idx ! k = 0 \<longrightarrow>
                     entry M idx = (if bcNeumannZero self then entry I idx
                                    else 2 * entry I idx - entry I (idx[k := 1]))))"
  using assms
  by (auto simp: axis_plus_shift axis_minus_shift shift_plus_def shift_minus_def Let_def
      getdimension_def list_update_same)

theorem shift_boundary_witness:
  "(\<exists>P M. axis_plus ex_fd3 1 ex_field3 = Inr P \<and> axis_minus ex_fd3 1 ex_field3 = Inr M \<and>
      entry P [1, 2, 0] = entry ex_field3 [1, 2, 0] \<and>
      entry M [1, 0, 1] = entry ex_field3 [1, 0, 1]) \<and>
   (\<exists>P M. axis_plus ex_fd3_lin 1 ex_field3 = Inr P \<and> axis_minus ex_fd3_lin 1 ex_field3 = Inr M \<and>
      entry P [1, 2, 0] = 2 * entry ex_field3 [1, 2, 0] - entry ex_field3 [1, 1, 0] \<and>
      entry M [1, 0, 1] = 2 * entry ex_field3 [1, 0, 1] - entry ex_field3 [1, 1, 1])"
proof -
  have g: "1 < getdimension ex_field3" "getdimension ex_field3 \<le> 3"
    "0 < shape ex_field3 ! 1" "2 \<le> shape ex_field3 ! 1"
    by (simp_all add: getdimension_def ex_field3_def)
  have n: "bcNeumannZero ex_fd3 \<or> 2 \<le> shape ex_field3 ! 1"
    "bcNeumannZero ex_fd3_lin \<or> 2 \<le> shape ex_field3 ! 1"
    using g(4) by simp_all
  have v: "shape ex_field3 ! 1 - 1 = 2" "shape ex_field3 ! 1 - 2 = 1"
    by (simp_all add: ex_field3_def)
  have b: "bcNeumannZero ex_fd3" "\<not> bcNeumannZero ex_fd3_lin"
    by (simp_all add: ex_fd3_def ex_fd3_lin_def)
  have i: "[1, 2, 0] ! 1 = (2::nat)" "[1, 0, 1] ! 1 = (0::nat)"
    "[1, 2, 0][1 := 1] = [1, 1, 0::nat]" "[1, 0, 1][1 := 1] = [1, 1, 1::nat]"
    by simp_all
  obtain P M where pm: "axis_plus ex_fd3 1 ex_field3 = Inr P" "axis_minus ex_fd3 1 ex_field3 = Inr M"
    and q: "\<forall>idx. (idx ! 1 = 2 \<longrightarrow> entry P idx = entry ex_field3 idx) \<and>
                  (idx ! 1 = 0 \<longrightarrow> entry M idx = entry ex_field3 idx)"
    using shift_boundary [OF g(1) g(2) g(3) n(1)] unfolding v using b(1) by auto
  obtain P' M' where pm': "axis_plus ex_fd3_lin 1 ex_field3 = Inr P'"
      "axis_minus ex_fd3_lin 1 ex_field3 = Inr M'"
    and q': "\<forall>idx. (idx ! 1 = 2 \<longrightarrow> entry P' idx = 2 * entry ex_field3 idx - entry ex_field3 (idx[1 := 1])) \<and>
                   (idx ! 1 = 0 \<longrightarrow> entry M' idx = 2 * entry ex_field3 idx - entry ex_field3 (idx[1 := 1]))"
    using shift_boundary [OF g(1) g(2) g(3) n(2)] unfolding v using b(2) by auto
  have "entry P [1, 2, 0] = entry ex_field3 [1, 2, 0]" "entry M [1, 0, 1] = entry ex_field3 [1, 0, 1]"
    using q i(1,2) by blast+
  moreover
  have "entry P' [1, 2, 0] = 2 * entry ex_field3 [1, 2, 0] - entry ex_field3 [1, 1, 0]"
    "entry M' [1, 0, 1] = 2 * entry ex_field3 [1, 0, 1] - entry ex_field3 [1, 1, 1]"
    using q'[rule_format, of "[1, 2, 0]"] q'[rule_format, of "[1, 0, 1]"] i by (metis)+
  ultimately show ?thesis using pm pm' by blast
qed

section \<open>Properties of the integrators\<close>

lemma rk4_loop_list:
  assumes "\<forall>i\<in>set js. i < length xs \<and> i < length k1 \<and> i < length k2 \<and> i < length k3 \<and> i < length k4"
  shows "rk4_loop (PyList xs) k1 k2 k3 k4 js acc =
         Inr (acc @ map (\<lambda>i. xs ! i + k1 ! i /\<^sub>R 6 + k2 ! i /\<^sub>R 3 + k3 ! i /\<^sub>R 3 + k4 ! i /\<^sub>R 6) js)"
  using assms
  by (induction js arbitrary: acc) (simp_all add: bind_e_def obj_getitem_def items_def getitem_def)

lemma stage_arg:
  "map (\<lambda>(a, b). a + c *\<^sub>R b) (zip xs (xts K dt)) = map2 (\<lambda>a k. a + (c * dt) *\<^sub>R k) xs K"
  by (simp add: xts_def zip_map2 case_prod_unfold)

lemma stage_arg1:
  "map (\<lambda>(a, b). a + b) (zip xs (xts K dt)) = map2 (\<lambda>a k. a + dt *\<^sub>R k) xs K"
  by (simp add: xts_def zip_map2 case_prod_unfold)

lemma RK4_step_formula:
  assumes ar: "\<forall>t y w p. length (f_rhs self t (PyList y) w p) = length y"
  shows "RK4_solve_one_step self (PyList x) t dt = Inr (PyList (rk4_formula self t dt x))"
proof -
  let ?K1 = "rk4_stage self t x"
  let ?x2 = "map2 (\<lambda>a k. a + (dt / 2) *\<^sub>R k) x ?K1"
  let ?K2 = "rk4_stage self (t + dt / 2) ?x2"
  let ?x3 = "map2 (\<lambda>a k. a + (dt / 2) *\<^sub>R k) x ?K2"
  let ?K3 = "rk4_stage self (t + dt / 2) ?x3"
  let ?x4 = "map2 (\<lambda>a k. a + dt *\<^sub>R k) x ?K3"
  let ?K4 = "rk4_stage self (t + dt) ?x4"
  have l1: "length ?K1 = length x" using ar by (simp add: rk4_stage_def)
  have l2: "length ?K2 = length x" using ar l1 by (simp add: rk4_stage_def)
  have l3: "length ?K3 = length x" using ar l2 by (simp add: rk4_stage_def)
  have l4: "length ?K4 = length x" using ar l3 by (simp add: rk4_stage_def)
  have loop: "rk4_loop (PyList x) (xts ?K1 dt) (xts ?K2 dt) (xts ?K3 dt) (xts ?K4 dt) [0..<length x] [] =
        Inr (rk4_formula self t dt x)"
    using l1 l2 l3 l4
    by (subst rk4_loop_list) (simp_all add: xts_def rk4_formula_def Let_def scaleR_add_right)
  show ?thesis
    unfolding RK4_solve_one_step_def Let_def xpyts_def xpy_def obj_len_def items_def bind_e_def
    using loop
    by (simp add: stage_arg stage_arg1 rk4_stage_def[symmetric])
qed

lemma solve_loop_steps:
  assumes "\<And>y t. step (PyList y) t dt = Inr (PyList (upd t dt y))"
  shows "solve_loop step n (PyList x) (fromT + real k * dt) dt =
         Inr (PyList (fold (\<lambda>j y. upd (fromT + real j * dt) dt y) [k..<k + n] x))"
proof (induction n arbitrary: k x)
  case 0
  then show ?case by simp
next
  case (Suc n)
  have t: "fromT + real k * dt + dt = fromT + real (Suc k) * dt" by (simp add: algebra_simps)
  have "[k..<k + Suc n] = k # [Suc k..<Suc k + n]" by (simp add: upt_conv_Cons)
  then show ?case using Suc.IH[of "upd (fromT + real k * dt) dt x" "Suc k"]
    by (simp add: assms bind_e_def t del: upt_Suc)
qed

lemma linspace_ok:
  assumes "0 < N"
  shows "\<exists>ts t1 t0. linspace fromT toT (N + 1) = Inr ts \<and> getitem ts 1 = Inr t1 \<and>
           getitem ts 0 = Inr t0 \<and> t1 - t0 = (toT - fromT) / real (nat N)"
proof -
  have m: "nat (N + 1) = Suc (nat N)" "1 < Suc (nat N)" using assms by auto
  show ?thesis using assms m(2)
    by (simp add: linspace_def getitem_def m(1) del: upt_Suc)
qed

lemma solve_equal_steps:
  assumes N: "0 < nrOfTimeSteps self"
    and st: "\<And>y t dt. step self (PyList y) t dt = Inr (PyList (upd t dt y))"
  shows "solve step self (PyList x) fromT toT =
         Inr (PyList (equal_steps upd (nat (nrOfTimeSteps self)) x fromT toT))"
proof -
  obtain ts t1 t0 where a: "linspace fromT toT (nrOfTimeSteps self + 1) = Inr ts"
     "getitem ts 1 = Inr t1" "getitem ts 0 = Inr t0"
     "t1 - t0 = (toT - fromT) / real (nat (nrOfTimeSteps self))"
    using linspace_ok[OF N] by blast
  have "solve_loop (step self) (nat (nrOfTimeSteps self)) (PyList x) (fromT + real 0 * (t1 - t0)) (t1 - t0)
      = Inr (PyList (fold (\<lambda>j y. upd (fromT + real j * (t1 - t0)) (t1 - t0) y)
                      [0..<0 + nat (nrOfTimeSteps self)] x))"
    by (rule solve_loop_steps) (rule st)
  then show ?thesis using a
    by (simp add: solve_def is_list_def bind_e_def equal_steps_def Let_def)
qed

text \<open>
  Outside the range of step counts that partition the interval: with \<open>N = 0\<close> the array of
  time points has one entry and reading \<open>timepoints[1]\<close> raises; with \<open>N < -1\<close> \<open>linspace\<close>
  itself raises.
\<close>

lemma solve_without_steps:
  assumes "is_list x" and "nrOfTimeSteps self = 0"
  shows "solve step self x fromT toT = Inl IndexError"
  using assms by (simp add: solve_def linspace_def getitem_def bind_e_def)

lemma decay_arity: "\<forall>t y w p. length (f_rhs decay t (PyList y) w p) = length y"
  by (simp add: decay_def neg_rhs_def)

text \<open>
  C1. For a state list \<open>x\<close>, a positive step count \<open>N\<close> and a right-hand side that returns
  as many fields as the state has (the state's fixed arity): one RK4 step returns the
  classical four-stage update, elementwise over the state list, every stage with the
  control input at its stage time and the shared parameters; \<open>solve\<close> with the RK4 step
  returns the state after \<open>N\<close> such steps of \<open>dt = (toT - fromT) / N\<close>, step \<open>n\<close>
  starting at \<open>fromT + n * dt\<close> from the state of the step before; and \<open>solve\<close> does the
  same with any step method that maps lists to lists.
\<close>

theorem rk4_solve_equal_steps:
  assumes "0 < nrOfTimeSteps self"
    and "\<forall>t y w p. length (f_rhs self t (PyList y) w p) = length y"
  shows "RK4_solve_one_step self (PyList x) t dt = Inr (PyList (rk4_formula self t dt x)) \<and>
         RK4_solve self (PyList x) fromT toT =
           Inr (PyList (equal_steps (rk4_formula self) (nat (nrOfTimeSteps self)) x fromT toT)) \<and>
         ((\<forall>y s d. step self (PyList y) s d = Inr (PyList (upd s d y))) \<longrightarrow>
          solve step self (PyList x) fromT toT =
           Inr (PyList (equal_steps upd (nat (nrOfTimeSteps self)) x fromT toT)))"
  using assms
  by (simp add: RK4_solve_def RK4_step_formula solve_equal_steps)

theorem rk4_solve_equal_steps_witness:
  "0 < nrOfTimeSteps decay \<and> (\<forall>t y w p. length (f_rhs decay t (PyList y) w p) = length y) \<and>
   RK4_solve_one_step decay (PyList [1]) 0 (1 / 2) = Inr (PyList [233 / 384]) \<and>
   RK4_solve decay (PyList [1]) 0 1 = Inr (PyList [54289 / 147456])"
proof -
  have n: "0 < nrOfTimeSteps decay" by (simp add: decay_def)
  have m: "nat (nrOfTimeSteps decay) = 2" by (simp add: decay_def)
  have e: "[0..<2] = [0, Suc 0]" by (simp add: upt_rec)
  have s: "\<And>t a. rk4_stage decay t [a] = [- a]" by (simp add: rk4_stage_def decay_def neg_rhs_def)
  have f: "\<And>t a. rk4_formula decay t (1 / 2) [a] = [233 / 384 * a]"
    by (simp add: rk4_formula_def Let_def s)
  have g: "equal_steps (rk4_formula decay) (nat (nrOfTimeSteps decay)) [1] 0 1 = [54289 / 147456]"
    by (simp add: equal_steps_def m e f Let_def)
  have "RK4_solve_one_step decay (PyList [1]) 0 (1 / 2) = Inr (PyList [233 / 384]) \<and>
        RK4_solve decay (PyList [1]) 0 1 = Inr (PyList [54289 / 147456])"
    using rk4_solve_equal_steps [OF n decay_arity, of "[1]" 0 "1 / 2" 0 1] by (simp add: f g)
  then show ?thesis using n decay_arity by simp
qed

text \<open>
  C8, as the code has it. \<open>solve\<close> asserts \<open>type(x) == list\<close> before anything else, so every
  other object fails with AssertionError whatever the step method is. \<open>solve_one_step\<close>
  has no such check: the Euler step on the tuple \<open>(1,)\<close> zips it with the right-hand side
  and returns the list \<open>[1/2]\<close>.
\<close>

theorem solve_one_step_accepts_tuple:
  "EulerForward_solve_one_step decay (PyTuple [1]) 0 (1 / 2) = Inr (PyList [1 / 2])"
  by (simp add: EulerForward_solve_one_step_def xpyts_def items_def bind_e_def decay_def neg_rhs_def)

text \<open>C8, amended: \<open>solve\<close> fails with AssertionError on every \<open>x\<close> that is not a list.\<close>

theorem solve_rejects_non_list:
  assumes "\<not> is_list x"
  shows "solve step self x fromT toT = Inl AssertionError"
  using assms by (simp add: solve_def)

theorem solve_rejects_non_list_witness:
  "\<not> is_list (PyTuple [1::real]) \<and> EulerForward_solve decay (PyTuple [1]) 0 1 = Inl AssertionError
   \<and> RK4_solve decay (PyTuple [1]) 0 1 = Inl AssertionError"
proof -
  have h: "\<not> is_list (PyTuple [1::real])" by (simp add: is_list_def)
  show ?thesis
    using solve_rejects_non_list [OF h, of EulerForward_solve_one_step decay 0 1]
      solve_rejects_non_list [OF h, of RK4_solve_one_step decay 0 1] h
    by (simp add: EulerForward_solve_def RK4_solve_def)
qed

section \<open>Properties of the smoothers\<close>

text \<open>
  C7. Whatever the field, \<open>inverse_smooth_scalar_field\<close> raises the "inversion not
  supported" ValueError on a diffusion smoother and on a spatial Gaussian smoother and
  returns a field on a Fourier Gaussian smoother: it raises exactly on the objects that
  are not Fourier smoothers. (The Fourier transforms are external functions of the
  model and return a value.)
\<close>

theorem inverse_smooth_unsupported:
  "fst (inverse_smooth_scalar_field ext (Diffusion d) v) = Inl inversion_error \<and>
   fst (inverse_smooth_scalar_field ext (GaussianSpatial g) v) = Inl inversion_error \<and>
   (\<exists>w. fst (inverse_smooth_scalar_field ext (GaussianFourier f) v) = Inr w) \<and>
   ((\<exists>e. fst (inverse_smooth_scalar_field ext s v) = Inl e) \<longleftrightarrow> \<not> is_fourier s)"
proof -
  have F: "\<And>f. \<exists>w. fst (inverse_smooth_scalar_field ext (GaussianFourier f) v) = Inr w"
    by (simp add: Fourier_inverse_smooth_scalar_field_def Fourier_create_filter_def Let_def
        split: option.splits prod.splits)
  have D: "\<And>d. fst (inverse_smooth_scalar_field ext (Diffusion d) v) = Inl inversion_error"
    by (simp add: Diffusion_inverse_smooth_scalar_field_def)
  have G: "\<And>g. fst (inverse_smooth_scalar_field ext (GaussianSpatial g) v) = Inl inversion_error"
    by (simp add: Spatial_inverse_smooth_scalar_field_def)
  have "(\<exists>e. fst (inverse_smooth_scalar_field ext s v) = Inl e) \<longleftrightarrow> \<not> is_fourier s"
  proof (cases s)
    case (Diffusion d)
    then show ?thesis using D by (simp add: is_fourier_def)
  next
    case (GaussianSpatial g)
    then show ?thesis using G by (simp add: is_fourier_def)
  next
    case (GaussianFourier f)
    then show ?thesis using F[of f] by (auto simp: is_fourier_def)
  qed
  with F D G show ?thesis by blast
qed

theorem inverse_smooth_unsupported_witness:
  "fst (inverse_smooth_scalar_field ex_ext (Diffusion ex_diffusion) ex_field1) = Inl inversion_error \<and>
   fst (inverse_smooth_scalar_field ex_ext (GaussianSpatial ex_spatial) ex_field1) = Inl inversion_error \<and>
   fst (inverse_smooth_scalar_field ex_ext (GaussianFourier ex_fourier) ex_field1) =
     Inr (arr_div ex_field1 (15 / 100))"
proof -
  have "fst (inverse_smooth_scalar_field ex_ext (GaussianFourier ex_fourier) ex_field1) =
     Inr (arr_div ex_field1 (15 / 100))"
    by (simp add: Fourier_inverse_smooth_scalar_field_def Fourier_create_filter_def Let_def
        ex_fourier_def ex_ext_def)
  then show ?thesis
    using inverse_smooth_unsupported [where ext = ex_ext and d = ex_diffusion and g = ex_spatial
        and v = ex_field1]
    by simp
qed

lemma Spatial_smooth_fails:
  assumes "filter_attr self = None"
    and "Smoother.dim self = 1 \<or> Smoother.dim self = 2 \<or> Smoother.dim self = 3"
  shows "\<exists>s'. Spatial_smooth_scalar_field ext self v =
           (Inl (NameError (if k_sz_h self = None then ''sz'' else ''k_sz_h'')), s') \<and>
         filter_attr s' = None \<and> k_sz_h s' = k_sz_h self \<and> Smoother.dim s' = Smoother.dim self"
  using assms
  by (auto simp: Spatial_smooth_scalar_field_def Spatial_create_filter_def Let_def
      split: option.splits)

lemma Spatial_calls_fail:
  assumes "filter_attr self = None"
    and "Smoother.dim self = 1 \<or> Smoother.dim self = 2 \<or> Smoother.dim self = 3"
  shows "Spatial_smooth_calls ext self vs =
         replicate (length vs) (Inl (NameError (if k_sz_h self = None then ''sz'' else ''k_sz_h'')))"
  using assms
proof (induction vs arbitrary: self)
  case Nil
  then show ?case by simp
next
  case (Cons v vs)
  obtain s' where s: "Spatial_smooth_scalar_field ext self v =
           (Inl (NameError (if k_sz_h self = None then ''sz'' else ''k_sz_h'')), s')"
         "filter_attr s' = None" "k_sz_h s' = k_sz_h self" "Smoother.dim s' = Smoother.dim self"
    using Spatial_smooth_fails[OF Cons.prems] by blast
  show ?case using Cons.IH[of s'] s Cons.prems by simp
qed

text \<open>
  C10. A spatial Gaussian smoother as its constructor builds it never smooths: every call
  of \<open>smooth_scalar_field\<close>, the first and all later ones, ends in a NameError raised by
  the lazy filter construction, for the undefined name \<open>sz\<close> when the kernel half-width
  is the default and for the undefined name \<open>k_sz_h\<close> when it was specified.
\<close>

theorem spatial_smooth_always_raises:
  assumes "GaussianSpatialSmoother_init gsz sp ps = Inr self"
  shows "Spatial_smooth_calls ext self vs =
           replicate (length vs)
             (Inl (NameError (if p_k_sz_h ps = None then ''sz'' else ''k_sz_h'')))"
proof -
  have "filter_attr self = None" "k_sz_h self = p_k_sz_h ps"
    "Smoother.dim self = 1 \<or> Smoother.dim self = 2 \<or> Smoother.dim self = 3"
    using assms
    by (auto simp: GaussianSpatialSmoother_init_def FD_torch_def FD_init_def bind_e_def
        split: if_splits)
  then show ?thesis using Spatial_calls_fail[of self ext vs] by simp
qed

theorem spatial_smooth_always_raises_witness:
  "GaussianSpatialSmoother_init [3] [1 / 2] no_params = Inr ex_spatial \<and>
   Spatial_smooth_calls ex_ext ex_spatial [ex_field1, ex_field1] =
     [Inl (NameError ''sz''), Inl (NameError ''sz'')] \<and>
   GaussianSpatialSmoother_init [3] [1 / 2] (no_params\<lparr>p_k_sz_h := Some [2]\<rparr>) =
     Inr (ex_spatial\<lparr>params := no_params\<lparr>p_k_sz_h := Some [2]\<rparr>, k_sz_h := Some [2]\<rparr>) \<and>
   Spatial_smooth_calls ex_ext
     (ex_spatial\<lparr>params := no_params\<lparr>p_k_sz_h := Some [2]\<rparr>, k_sz_h := Some [2]\<rparr>)
     [ex_field1, ex_field1] = [Inl (NameError ''k_sz_h''), Inl (NameError ''k_sz_h'')]"
proof -
  have a: "GaussianSpatialSmoother_init [3] [1 / 2] no_params = Inr ex_spatial"
    by (simp add: GaussianSpatialSmoother_init_def FD_torch_def FD_init_def bind_e_def
        ex_spatial_def ex_fd1_def no_params_def)
  have b: "GaussianSpatialSmoother_init [3] [1 / 2] (no_params\<lparr>p_k_sz_h := Some [2]\<rparr>) =
     Inr (ex_spatial\<lparr>params := no_params\<lparr>p_k_sz_h := Some [2]\<rparr>, k_sz_h := Some [2]\<rparr>)"
    by (simp add: GaussianSpatialSmoother_init_def FD_torch_def FD_init_def bind_e_def
        ex_spatial_def ex_fd1_def no_params_def)
  have c: "p_k_sz_h no_params = None" "p_k_sz_h (no_params\<lparr>p_k_sz_h := Some [2]\<rparr>) \<noteq> None"
    by (simp_all add: no_params_def)
  have r: "\<And>e::error + arr. replicate (length [ex_field1, ex_field1]) e = [e, e]" by simp
  show ?thesis
    using spatial_smooth_always_raises [OF a, of ex_ext "[ex_field1, ex_field1]"]
      spatial_smooth_always_raises [OF b, of ex_ext "[ex_field1, ex_field1]"] a b
    unfolding r by (simp add: c)
qed

text \<open>
  C4, as the code has it. A Fourier smoother with the default standard deviation 0.15
  smooths once, which caches the filter built from 0.15. After \<open>set_gaussian_std(0.3)\<close>
  the cached filter is still that one, the next smoothing call uses and keeps it, whereas
  a filter built from 0.3 would be a different one.
\<close>

theorem set_gaussian_std_keeps_filter:
  "FFilter (set_gaussian_std (3 / 10) (snd (Fourier_smooth_scalar_field ex_ext ex_fourier ex_field1)))
     = Some (15 / 100) \<and>
   Fourier_smooth_scalar_field ex_ext
      (set_gaussian_std (3 / 10) (snd (Fourier_smooth_scalar_field ex_ext ex_fourier ex_field1)))
      ex_field1 =
     (Inr (arr_times ex_field1 (15 / 100)),
      set_gaussian_std (3 / 10) (snd (Fourier_smooth_scalar_field ex_ext ex_fourier ex_field1))) \<and>
   FFilter (Fourier_create_filter ex_ext (set_gaussian_std (3 / 10) ex_fourier)) = Some (3 / 10)"
  by (simp add: Fourier_smooth_scalar_field_def Fourier_create_filter_def set_gaussian_std_def
      Let_def ex_fourier_def ex_ext_def)

text \<open>
  C4, amended. While no filter is cached, \<open>smooth_scalar_field\<close> and
  \<open>inverse_smooth_scalar_field\<close> build it from the current standard deviation, use it and
  leave it cached; once a filter is cached they use it and leave the object unchanged;
  \<open>set_gaussian_std\<close> stores the new standard deviation and leaves the cached filter as it
  is.
\<close>

theorem fourier_filter_cache:
  "(FFilter self = None \<longrightarrow>
      FFilter (Fourier_create_filter ext self) \<noteq> None \<and>
      Fourier_smooth_scalar_field ext self v =
        (Inr (fourier_convolution ext v (the (FFilter (Fourier_create_filter ext self)))),
         Fourier_create_filter ext self) \<and>
      Fourier_inverse_smooth_scalar_field ext self v =
        (Inr (inverse_fourier_convolution ext v (the (FFilter (Fourier_create_filter ext self)))),
         Fourier_create_filter ext self)) \<and>
   (FFilter self = Some F \<longrightarrow>
      Fourier_smooth_scalar_field ext self v = (Inr (fourier_convolution ext v F), self) \<and>
      Fourier_inverse_smooth_scalar_field ext self v =
        (Inr (inverse_fourier_convolution ext v F), self)) \<and>
   FFilter (set_gaussian_std gstd self) = FFilter self \<and>
   gaussianStd (set_gaussian_std gstd self) = gstd"
  by (simp add: Fourier_smooth_scalar_field_def Fourier_inverse_smooth_scalar_field_def
      Fourier_create_filter_def set_gaussian_std_def Let_def)

theorem fourier_filter_cache_witness:
  "FFilter ex_fourier = None \<and>
   FFilter (snd (Fourier_smooth_scalar_field ex_ext ex_fourier ex_field1)) = Some (15 / 100) \<and>
   snd (Fourier_smooth_scalar_field ex_ext
          (snd (Fourier_smooth_scalar_field ex_ext ex_fourier ex_field1)) ex_field1)
     = snd (Fourier_smooth_scalar_field ex_ext ex_fourier ex_field1)"
proof -
  have n: "FFilter ex_fourier = None" by (simp add: ex_fourier_def)
  have c: "FFilter (Fourier_create_filter ex_ext ex_fourier) = Some (15 / 100)"
    by (simp add: Fourier_create_filter_def ex_fourier_def ex_ext_def)
  have 1: "snd (Fourier_smooth_scalar_field ex_ext ex_fourier ex_field1) =
      Fourier_create_filter ex_ext ex_fourier"
    using fourier_filter_cache [where self = ex_fourier and ext = ex_ext and v = ex_field1] n
    by simp
  have 2: "snd (Fourier_smooth_scalar_field ex_ext (Fourier_create_filter ex_ext ex_fourier) ex_field1)
      = Fourier_create_filter ex_ext ex_fourier"
    using fourier_filter_cache [where self = "Fourier_create_filter ex_ext ex_fourier"
        and F = "15 / 100" and ext = ex_ext and v = ex_field1] c
    by simp
  show ?thesis using n c 1 2 by simp
qed

section \<open>The Laplacian returns on well-formed fields\<close>

lemma shift_plus_ok:
  assumes "0 < shape I ! k" "bc \<or> 2 \<le> shape I ! k"
  shows "\<exists>P. shift_plus bc k I = Inr P \<and> shape P = shape I"
  using assms by (auto simp: shift_plus_def Let_def)

lemma shift_minus_ok:
  assumes "0 < shape I ! k" "bc \<or> 2 \<le> shape I ! k"
  shows "\<exists>P. shift_minus bc k I = Inr P \<and> shape P = shape I"
  using assms by (auto simp: shift_minus_def Let_def)

lemma ddXc_ok:
  assumes "getdimension I \<in> {1, 2, 3}" "0 < length (FD.spacing fd)" "0 < shape I ! 0"
    "bcNeumannZero fd \<or> 2 \<le> shape I ! 0"
  shows "\<exists>L. ddXc fd I = Inr L \<and> shape L = shape I"
proof -
  obtain P M where "shift_plus (bcNeumannZero fd) 0 I = Inr P" "shift_minus (bcNeumannZero fd) 0 I = Inr M"
    "shape P = shape I"
    using shift_plus_ok[OF assms(3,4)] shift_minus_ok[OF assms(3,4)] by blast
  then show ?thesis using assms(1,2)
    by (auto simp: ddXc_def xp_def xm_def Let_def bind_e_def getitem_def arr_div_def arr_add_def arr_sub_def)
qed

lemma ddYc_ok:
  assumes "getdimension I \<in> {2, 3}" "1 < length (FD.spacing fd)" "0 < shape I ! 1"
    "bcNeumannZero fd \<or> 2 \<le> shape I ! 1"
  shows "\<exists>L. ddYc fd I = Inr L \<and> shape L = shape I"
proof -
  obtain P M where "shift_plus (bcNeumannZero fd) 1 I = Inr P" "shift_minus (bcNeumannZero fd) 1 I = Inr M"
    "shape P = shape I"
    using shift_plus_ok[OF assms(3,4)] shift_minus_ok[OF assms(3,4)] by blast
  then show ?thesis using assms(1,2)
    by (auto simp: ddYc_def yp_def ym_def Let_def bind_e_def getitem_def arr_div_def arr_add_def arr_sub_def)
qed

lemma ddZc_ok:
  assumes "getdimension I = 3" "2 < length (FD.spacing fd)" "0 < shape I ! 2"
    "bcNeumannZero fd \<or> 2 \<le> shape I ! 2"
  shows "\<exists>L. ddZc fd I = Inr L \<and> shape L = shape I"
proof -
  obtain P M where "shift_plus (bcNeumannZero fd) 2 I = Inr P" "shift_minus (bcNeumannZero fd) 2 I = Inr M"
    "shape P = shape I"
    using shift_plus_ok[OF assms(3,4)] shift_minus_ok[OF assms(3,4)] by blast
  then show ?thesis using assms(1,2)
    by (auto simp: ddZc_def zp_def zm_def Let_def bind_e_def getitem_def arr_div_def arr_add_def arr_sub_def)
qed

lemma lap_ok:
  assumes d: "getdimension I = length (FD.spacing fd)" "getdimension I \<in> {1, 2, 3}"
    and n: "\<forall>n\<in>set (shape I). 0 < n \<and> (bcNeumannZero fd \<or> 2 \<le> n)"
  shows "\<exists>L. lap fd I = Inr L \<and> shape L = shape I"
proof -
  have k: "\<And>k. k < getdimension I \<Longrightarrow> 0 < shape I ! k \<and> (bcNeumannZero fd \<or> 2 \<le> shape I ! k)"
    using n by (simp add: getdimension_def)
  have p0: "0 < getdimension I" using d(2) by auto
  have X: "\<exists>L. ddXc fd I = Inr L \<and> shape L = shape I"
    using d k[OF p0] by (intro ddXc_ok) auto
  from d(2) consider "getdimension I = 1" | "getdimension I = 2" | "getdimension I = 3" by auto
  then show ?thesis
  proof cases
    case 1
    then show ?thesis using X by (simp add: lap_def)
  next
    case 2
    have p1: "1 < getdimension I" using 2 by simp
    have Y: "\<exists>L. ddYc fd I = Inr L \<and> shape L = shape I"
      using d 2 k[OF p1] by (intro ddYc_ok) auto
    from X Y obtain A B where "ddXc fd I = Inr A" "shape A = shape I" "ddYc fd I = Inr B"
      by blast
    then show ?thesis using 2 by (simp add: lap_def bind_e_def arr_add_def)
  next
    case 3
    have p1: "1 < getdimension I" "2 < getdimension I" using 3 by simp_all
    have Y: "\<exists>L. ddYc fd I = Inr L \<and> shape L = shape I"
      using d 3 k[OF p1(1)] by (intro ddYc_ok) auto
    have Z: "\<exists>L. ddZc fd I = Inr L \<and> shape L = shape I"
      using d 3 k[OF p1(2)] by (intro ddZc_ok) auto
    from X Y Z obtain A B C where "ddXc fd I = Inr A" "shape A = shape I" "ddYc fd I = Inr B"
      "ddZc fd I = Inr C"
      by blast
    then show ?thesis using 3 by (simp add: lap_def bind_e_def arr_add_def)
  qed
qed

lemma ex_lap: "lap ex_fd1 \<lparr>shape = [3], entry = g\<rparr> =
   Inr \<lparr>shape = [3], entry = (\<lambda>idx. ((if idx ! 0 + 1 < 3 then g (idx[0 := idx ! 0 + 1]) else g (idx[0 := 2]))
      - 2 * g idx + (if 0 < idx ! 0 then g (idx[0 := idx ! 0 - 1]) else g (idx[0 := 0]))) / (1 / 2)\<^sup>2)\<rparr>"
  by (simp add: lap_def ddXc_def xp_def xm_def shift_plus_def shift_minus_def getdimension_def
      bind_e_def getitem_def ex_fd1_def arr_div_def arr_add_def arr_sub_def arr_scale_def Let_def
      cong del: if_weak_cong)

section \<open>Properties of the diffusion smoother\<close>

lemma DiffusionSmoother_init_fields:
  assumes "DiffusionSmoother_init gsz sp ps = Inr self"
  shows "Smoother.dim self = length sp" "Smoother.spacing self = sp"
    "FD_init sp True = Inr (Smoother.fdt self)"
    "iter self = (case p_iter ps of None \<Rightarrow> 5 | Some n \<Rightarrow> n)"
  using assms
  by (auto simp: DiffusionSmoother_init_def FD_torch_def bind_e_def split: sum.splits)

lemma heat_update_lap:
  assumes i: "DiffusionSmoother_init gsz sp ps = Inr self"
    and d: "getdimension Sv = length sp" and n: "\<forall>n\<in>set (shape Sv). 0 < n"
  shows "\<exists>L. lap (Smoother.fdt self) Sv = Inr L \<and> shape L = shape Sv"
proof -
  note f = DiffusionSmoother_init_fields[OF i]
  note g = FD_init_fields[OF f(3)]
  have "getdimension Sv = length (FD.spacing (Smoother.fdt self))" "getdimension Sv \<in> {1, 2, 3}"
    "\<forall>n\<in>set (shape Sv). 0 < n \<and> (bcNeumannZero (Smoother.fdt self) \<or> 2 \<le> n)"
    using d n g by auto
  then show ?thesis by (rule lap_ok)
qed

lemma heat_update_iter_shape: "shape ((heat_update self ^^ k) v) = shape v"
  by (induction k) (simp_all add: heat_update_def)

lemma diffusion_step_update:
  assumes i: "DiffusionSmoother_init gsz sp ps = Inr self"
    and d: "getdimension Sv = length sp" and n: "\<forall>n\<in>set (shape Sv). 0 < n"
  shows "diffusion_step self Sv = Inr (heat_update self Sv)"
proof -
  note f = DiffusionSmoother_init_fields[OF i]
  note g = FD_init_fields[OF f(3)]
  obtain L where L: "lap (Smoother.fdt self) Sv = Inr L" using heat_update_lap[OF i d n] by blast
  have "sp \<noteq> []" using g(4) by auto
  then show ?thesis using L f(1,2)
    by (simp add: diffusion_step_def heat_update_def bind_e_def array_min_def arr_add_def
        arr_times_def arr_scale_def)
qed

lemma diffusion_loop_updates:
  assumes i: "DiffusionSmoother_init gsz sp ps = Inr self"
    and d: "getdimension Sv = length sp" and n: "\<forall>n\<in>set (shape Sv). 0 < n"
  shows "diffusion_loop self k Sv = Inr ((heat_update self ^^ k) Sv)"
  using d n
proof (induction k arbitrary: Sv)
  case 0
  then show ?case by simp
next
  case (Suc k)
  have s: "shape (heat_update self Sv) = shape Sv" by (simp add: heat_update_def)
  have "diffusion_loop self k (heat_update self Sv) = Inr ((heat_update self ^^ k) (heat_update self Sv))"
    using Suc.prems s by (intro Suc.IH) (simp_all add: getdimension_def)
  then show ?case using diffusion_step_update[OF i Suc.prems]
    by (simp add: bind_e_def funpow_swap1)
qed
text \<open>
  C3. For a diffusion smoother from the constructor and a scalar field of the smoother's
  dimension with non-empty axes, \<open>smooth_scalar_field\<close> returns the field obtained by
  applying the update \<open>v + (0.5 / 2^dim) * lap(v) * min(spacing)^2\<close> exactly
  \<open>iter * 2^dim\<close> times (no times when \<open>iter\<close> is negative).
\<close>

theorem diffusion_smooth_iterates:
  assumes "DiffusionSmoother_init gsz sp ps = Inr self"
    and "getdimension v = length sp" and "\<forall>n\<in>set (shape v). 0 < n"
  shows "Diffusion_smooth_scalar_field self v =
           Inr ((heat_update self ^^ nat (iter self * 2 ^ length sp)) v) \<and>
         (\<forall>k. \<exists>L. lap (Smoother.fdt self) ((heat_update self ^^ k) v) = Inr L \<and> shape L = shape v)"
proof -
  have "\<exists>L. lap (Smoother.fdt self) ((heat_update self ^^ k) v) = Inr L \<and> shape L = shape v" for k
    using heat_update_lap[OF assms(1), of "(heat_update self ^^ k) v"] assms(2,3)
    by (simp add: heat_update_iter_shape getdimension_def)
  then show ?thesis
    using diffusion_loop_updates[OF assms] DiffusionSmoother_init_fields(1)[OF assms(1)]
    by (simp add: Diffusion_smooth_scalar_field_def)
qed

lemma ex_heat: "heat_update ex_diffusion \<lparr>shape = [3], entry = g\<rparr> =
   \<lparr>shape = [3], entry = (\<lambda>idx. g idx + 1 / 16 * (((if idx ! 0 + 1 < 3 then g (idx[0 := idx ! 0 + 1]) else g (idx[0 := 2]))
      - 2 * g idx + (if 0 < idx ! 0 then g (idx[0 := idx ! 0 - 1]) else g (idx[0 := 0]))) * 4))\<rparr>"
  by (simp add: heat_update_def ex_diffusion_def ex_lap power2_eq_square)

theorem diffusion_smooth_iterates_witness:
  "DiffusionSmoother_init [3] [1 / 2] (no_params\<lparr>p_iter := Some 1\<rparr>) = Inr ex_diffusion \<and>
   getdimension ex_field1 = length [1 / 2 :: real] \<and>
   map (\<lambda>i. entry (projr (Diffusion_smooth_scalar_field ex_diffusion ex_field1)) [i]) [0, 1, 2] =
     [39 / 16, 37 / 8, 111 / 16]"
proof -
  have a: "DiffusionSmoother_init [3] [1 / 2] (no_params\<lparr>p_iter := Some 1\<rparr>) = Inr ex_diffusion"
    by (simp add: DiffusionSmoother_init_def FD_torch_def FD_init_def bind_e_def ex_diffusion_def
        ex_fd1_def no_params_def)
  have b: "getdimension ex_field1 = length [1 / 2 :: real]" by (simp add: getdimension_def ex_field1_def)
  have c: "\<forall>n\<in>set (shape ex_field1). 0 < n" by (simp add: ex_field1_def)
  have k: "nat (iter ex_diffusion * 2 ^ length [1 / 2 :: real]) = Suc (Suc 0)" by (simp add: ex_diffusion_def)
  have "map (\<lambda>i. entry ((heat_update ex_diffusion ^^ Suc (Suc 0)) ex_field1) [i]) [0, 1, 2] =
     [39 / 16, 37 / 8, 111 / 16]"
    by (simp add: ex_field1_def ex_heat)
  then show ?thesis using diffusion_smooth_iterates [OF a b c, THEN conjunct1] a b unfolding k by simp
qed

section \<open>Properties of the regularizer\<close>

lemma asum_add: "asum s (\<lambda>i. f i + g i) = asum s f + asum s g"
proof (induction s arbitrary: f g)
  case Nil
  then show ?case by simp
next
  case (Cons n ns)
  then show ?case by (simp add: sum_list_addf)
qed

lemma asum_nonneg: "(\<And>i. 0 \<le> f i) \<Longrightarrow> 0 \<le> asum s f"
proof (induction s arbitrary: f)
  case Nil
  then show ?case by simp
next
  case (Cons n ns)
  then show ?case by (auto intro!: sum_list_nonneg)
qed

lemma prod_list_pos_nonneg: "\<forall>h\<in>set (sp::real list). 0 < h \<Longrightarrow> 0 \<le> prod_list sp"
  by (induction sp) auto

lemma Regularizer_init_fields:
  assumes "HelmholtzRegularizer_init sp ps = Inr self"
  shows "Regularizer.dim self = length sp" "Regularizer.spacing self = sp"
    "FD_init sp True = Inr (Regularizer.fdt self)" "Regularizer.volumeElement self = prod_list sp"
  using assms
  by (auto simp: HelmholtzRegularizer_init_def FD_torch_def bind_e_def split: sum.splits)

lemma slice_lap_ok:
  assumes i: "HelmholtzRegularizer_init sp ps = Inr self"
    and s: "shape v = length sp # g" "length g = length sp" and n: "\<forall>n\<in>set g. 0 < n"
  shows "\<exists>L. lap (Regularizer.fdt self) (slice v c) = Inr L \<and> shape L = g"
proof -
  note f = Regularizer_init_fields[OF i]
  note h = FD_init_fields[OF f(3)]
  have sl: "shape (slice v c) = g" using s by (simp add: slice_def)
  have "getdimension (slice v c) = length (FD.spacing (Regularizer.fdt self))"
    "getdimension (slice v c) \<in> {1, 2, 3}"
    "\<forall>n\<in>set (shape (slice v c)). 0 < n \<and> (bcNeumannZero (Regularizer.fdt self) \<or> 2 \<le> n)"
    using s n h sl by (auto simp: getdimension_def)
  then show ?thesis using lap_ok[of "slice v c" "Regularizer.fdt self"] sl by simp
qed

lemma helmholtz_Lv_value:
  assumes i: "HelmholtzRegularizer_init sp ps = Inr self"
    and s: "shape v = length sp # g" "length g = length sp" and n: "\<forall>n\<in>set g. 0 < n"
    and c: "c < length sp"
  shows "helmholtz_Lv self v c (length sp) al ga =
         Inr \<lparr>shape = g, entry = (\<lambda>idx. entry v (c # idx) * ga -
                 entry (projr (lap (Regularizer.fdt self) (slice v c))) idx * al)\<rparr>"
proof -
  obtain L where L: "lap (Regularizer.fdt self) (slice v c) = Inr L"
    using slice_lap_ok[OF i s n] by blast
  have sl: "shape (slice v c) = g" using s by (simp add: slice_def)
  have e: "entry (slice v c) = (\<lambda>idx. entry v (c # idx))" by (simp add: slice_def)
  show ?thesis using L s c sl
    by (simp add: helmholtz_Lv_def subarr_def bind_e_def arr_sub_def arr_times_def e)
qed

lemma sq_comm: "(a * (ga::real) - l * al)\<^sup>2 = (ga * a - al * l)\<^sup>2"
  by (simp add: mult.commute)

lemma compute_regularizer_value:
  assumes i: "HelmholtzRegularizer_init sp ps = Inr self"
    and s: "shape v = length sp # g" "length g = length sp" and n: "\<forall>n\<in>set g. 0 < n"
  shows "compute_regularizer self v = Inr (helmholtz_norm self v)"
proof -
  note f = Regularizer_init_fields[OF i]
  note h = FD_init_fields[OF f(3)]
  note Lv = helmholtz_Lv_value[OF i s n]
  from h(4) consider "length sp = 1" | "length sp = 2" | "length sp = 3" by auto
  then show ?thesis
  proof cases
    case 1
    have u: "[0..<Suc 0] = [0]" by simp
    show ?thesis using Lv[of 0] 1 f s
      by (simp add: compute_regularizer_def compute_regularizer_1d_def bind_e_def arr_sum_def arr_sq_def
          helmholtz_norm_def u sq_comm)
  next
    case 2
    have u: "[0..<2] = [0, Suc 0]" by (simp add: upt_rec)
    show ?thesis using Lv[of 0] Lv[of 1] 2 f s
      by (simp add: compute_regularizer_def compute_regularizer_2d_def bind_e_def arr_sum_def arr_sq_def
          arr_add_def helmholtz_norm_def u sq_comm asum_add)
  next
    case 3
    have u: "[0..<3] = [0, Suc 0, 2]" by (simp add: upt_rec)
    show ?thesis using Lv[of 0] Lv[of 1] Lv[of 2] 3 f s
      by (simp add: compute_regularizer_def compute_regularizer_3d_def bind_e_def arr_sum_def arr_sq_def
          arr_add_def helmholtz_norm_def u sq_comm asum_add)
  qed
qed

lemma multiN_loop_sum:
  assumes "\<forall>n\<in>set ns. n < hd (shape V) \<and> compute_regularizer self (slice V n) = Inr (r n)"
    and "shape V \<noteq> []"
  shows "multiN_loop self V reg ns = Inr (reg + sum_list (map r ns))"
  using assms
proof (induction ns arbitrary: reg)
  case Nil
  then show ?case by simp
next
  case (Cons n ns)
  then show ?case by (simp add: bind_e_def subarr_def Suc_le_eq add.assoc)
qed
text \<open>
  C2. For a Helmholtz regularizer from the constructor (dimension 1, 2 or 3) and a grid
  with non-empty axes: on a single vector field, one component per axis, the regularizer
  returns the sum over the components of the squared entries of
  \<open>Lv = gamma * v - alpha * lap(v)\<close>, times the product of the spacings; on a batch of \<open>N\<close>
  vector fields along a leading axis it returns the sum of the \<open>N\<close> values of the items.
\<close>

theorem regularizer_value:
  assumes "HelmholtzRegularizer_init sp ps = Inr self"
    and "length g = length sp" and "\<forall>n\<in>set g. 0 < n"
  shows "(shape v = length sp # g \<longrightarrow>
            (\<forall>c. \<exists>L. lap (Regularizer.fdt self) (slice v c) = Inr L \<and> shape L = g) \<and>
            compute_regularizer self v = Inr (helmholtz_norm self v)) \<and>
         (shape V = N # length sp # g \<longrightarrow>
            compute_regularizer_multiN self V =
              Inr (sum_list (map (\<lambda>n. helmholtz_norm self (slice V n)) [0..<N])))"
proof -
  have a: "compute_regularizer self v = Inr (helmholtz_norm self v)" if "shape v = length sp # g" for v
    using compute_regularizer_value[OF assms(1) that assms(2,3)] .
  have l: "\<forall>c. \<exists>L. lap (Regularizer.fdt self) (slice v c) = Inr L \<and> shape L = g"
    if "shape v = length sp # g"
    using slice_lap_ok[OF assms(1) that assms(2,3)] by blast
  have "compute_regularizer_multiN self V =
              Inr (sum_list (map (\<lambda>n. helmholtz_norm self (slice V n)) [0..<N]))"
    if V: "shape V = N # length sp # g"
  proof -
    have "\<forall>n\<in>set [0..<N]. n < hd (shape V) \<and>
        compute_regularizer self (slice V n) = Inr (helmholtz_norm self (slice V n))"
      using V a by (simp add: slice_def)
    then have "multiN_loop self V 0 [0..<N] =
        Inr (0 + sum_list (map (\<lambda>n. helmholtz_norm self (slice V n)) [0..<N]))"
      using V by (intro multiN_loop_sum) auto
    then show ?thesis using V by (simp add: compute_regularizer_multiN_def bind_e_def getitem_def)
  qed
  with a l show ?thesis by blast
qed

lemma ex_norm:
  "helmholtz_norm ex_reg \<lparr>shape = [1, 3], entry = (\<lambda>idx. c * [1, 4, 9] ! (idx ! 1))\<rparr> = c\<^sup>2 * (2209 / 25)"
proof -
  have u: "[0..<3] = [0, Suc 0, 2]" by (simp add: upt_rec)
  show ?thesis
    by (simp add: helmholtz_norm_def ex_reg_def slice_def ex_lap u power2_eq_square algebra_simps)
qed

theorem regularizer_value_witness:
  "HelmholtzRegularizer_init [1 / 2] reg_defaults = Inr ex_reg \<and>
   shape ex_vfield = [1, 3] \<and> shape ex_batch = [2, 1, 3] \<and>
   compute_regularizer ex_reg ex_vfield = Inr (2209 / 25) \<and>
   compute_regularizer_multiN ex_reg ex_batch = Inr (2209 / 5)"
proof -
  have a: "HelmholtzRegularizer_init [1 / 2] reg_defaults = Inr ex_reg"
    by (simp add: HelmholtzRegularizer_init_def FD_torch_def FD_init_def bind_e_def ex_reg_def
        ex_fd1_def reg_defaults_def)
  have b: "length [3::nat] = length [1 / 2 :: real]" "\<forall>n\<in>set [3::nat]. 0 < n" by simp_all
  have s: "shape ex_vfield = length [1 / 2 :: real] # [3]" "shape ex_batch = 2 # length [1 / 2 :: real] # [3]"
    by (simp_all add: ex_vfield_def ex_batch_def)
  have v: "helmholtz_norm ex_reg ex_vfield = 2209 / 25"
    using ex_norm[of 1] by (simp add: ex_vfield_def)
  have u: "[0..<2] = [0, Suc 0]" by (simp add: upt_rec)
  have w: "helmholtz_norm ex_reg (slice ex_batch 0) = 2209 / 25"
    "helmholtz_norm ex_reg (slice ex_batch (Suc 0)) = 4 * (2209 / 25)"
    using ex_norm[of 1] ex_norm[of 2] by (simp_all add: ex_batch_def slice_def)
  show ?thesis
    using regularizer_value [OF a b, of ex_vfield ex_batch 2] a s by (simp add: v w u)
qed

text \<open>
  C9. With positive spacings the regularizer of a vector field returns a value that is
  not negative, whatever the weights \<open>alpha\<close> and \<open>gamma\<close> in the parameters are, so in
  particular for non-negative weights.
\<close>

theorem regularizer_nonneg:
  assumes "HelmholtzRegularizer_init sp ps = Inr self"
    and "shape v = length sp # g" and "length g = length sp" and "\<forall>n\<in>set g. 0 < n"
    and "\<forall>h\<in>set sp. 0 < h"
  shows "\<exists>r. compute_regularizer self v = Inr r \<and> 0 \<le> r"
proof -
  have "0 \<le> helmholtz_norm self v"
    unfolding helmholtz_norm_def
    using prod_list_pos_nonneg[OF assms(5)] Regularizer_init_fields(2)[OF assms(1)]
    by (auto intro!: mult_nonneg_nonneg sum_list_nonneg asum_nonneg)
  then show ?thesis using compute_regularizer_value[OF assms(1-4)] by simp
qed

theorem regularizer_nonneg_witness:
  "HelmholtzRegularizer_init [1 / 2] reg_defaults = Inr ex_reg \<and> shape ex_vfield = [1, 3] \<and>
   (\<exists>r. compute_regularizer ex_reg ex_vfield = Inr r \<and> 0 \<le> r)"
proof -
  have a: "HelmholtzRegularizer_init [1 / 2] reg_defaults = Inr ex_reg"
    by (simp add: HelmholtzRegularizer_init_def FD_torch_def FD_init_def bind_e_def ex_reg_def
        ex_fd1_def reg_defaults_def)
  have s: "shape ex_vfield = length [1 / 2 :: real] # [3]" by (simp add: ex_vfield_def)
  have b: "length [3::nat] = length [1 / 2 :: real]" "\<forall>n\<in>set [3::nat]. 0 < n"
    "\<forall>h\<in>set [1 / 2 :: real]. 0 < h"
    by simp_all
  show ?thesis using regularizer_nonneg [OF a s b] a s by simp
qed

end
